theory Spec2Isabelle
  imports Complex_Main
begin

text \<open>
  A shallow embedding of the Pet Express recommendation service: the retrying HTTP client,
  the product-card extractor, the product and groomer suitability scorers, the groomer
  search with its fall-back, and the composer of the response. Exceptions are values of a
  sum type, loops are recursive functions or folds, and everything outside the repository
  (network, language model, web search, HTML parser) is a parameter. The definitions come
  first, the properties after them.
\<close>

section \<open>Python strings\<close>

text \<open>
  A Python \<open>str\<close> is modelled as a \<open>string\<close> of 8-bit characters; \<open>lower\<close> is the
  ASCII case mapping (the sites scraped and the breed and age vocabularies are ASCII).
  Python's \<open>str.lower()\<close> also maps letters outside ASCII, which this model leaves as
  they are.
\<close>

definition ascii_upper :: string where
  "ascii_upper = ''ABCDEFGHIJKLMNOPQRSTUVWXYZ''"

definition ascii_lower :: string where
  "ascii_lower = ''abcdefghijklmnopqrstuvwxyz''"

definition ascii_digits :: string where
  "ascii_digits = ''0123456789''"

definition lower_char :: "char \<Rightarrow> char" where
  "lower_char c = (case map_of (zip ascii_upper ascii_lower) c of None \<Rightarrow> c | Some d \<Rightarrow> d)"

definition py_lower :: "string \<Rightarrow> string" where
  "py_lower s = map lower_char s"

text \<open>\<open>s.startswith(p)\<close>\<close>

fun startswith :: "string \<Rightarrow> string \<Rightarrow> bool" where
  "startswith s [] = True"
| "startswith [] (p # ps) = False"
| "startswith (c # cs) (p # ps) = (c = p \<and> startswith cs ps)"

text \<open>\<open>sub in s\<close>: \<open>sub\<close> occurs in \<open>s\<close> as a contiguous substring.\<close>

fun py_in :: "string \<Rightarrow> string \<Rightarrow> bool" where
  "py_in sub [] = (sub = [])"
| "py_in sub (c # cs) = (startswith (c # cs) sub \<or> py_in sub cs)"

text \<open>
  \<open>s.count(sub)\<close>: the number of non-overlapping occurrences, scanning from the left;
  for the empty \<open>sub\<close> it is \<open>len(s) + 1\<close>.
\<close>

fun py_count :: "string \<Rightarrow> string \<Rightarrow> nat" where
  "py_count [] sub = (if sub = [] then 1 else 0)"
| "py_count (c # cs) sub =
     (if sub = [] then Suc (py_count cs sub)
      else if startswith (c # cs) sub then Suc (py_count (drop (length sub) (c # cs)) sub)
      else py_count cs sub)"

text \<open>\<open>sep.join(xs)\<close>\<close>

fun py_join :: "string \<Rightarrow> string list \<Rightarrow> string" where
  "py_join sep [] = []"
| "py_join sep [x] = x"
| "py_join sep (x # y # ys) = x @ sep @ py_join sep (y # ys)"

text \<open>\<open>re.sub(r'[^a-zA-Z0-9]', '-', s).strip('-')\<close>, the slug used for URLs and identifiers.\<close>

definition is_ascii_alnum :: "char \<Rightarrow> bool" where
  "is_ascii_alnum c = (c \<in> set (ascii_lower @ ascii_upper @ ascii_digits))"

definition strip_dashes :: "string \<Rightarrow> string" where
  "strip_dashes s =
     rev (dropWhile (\<lambda>c. c = CHR ''-'') (rev (dropWhile (\<lambda>c. c = CHR ''-'') s)))"

definition slug :: "string \<Rightarrow> string" where
  "slug s = strip_dashes (map (\<lambda>c. if is_ascii_alnum c then c else CHR ''-'') s)"

definition nl :: string where
  "nl = [CHR 0x0A]"

text \<open>\<open>str(n)\<close> for a non-negative \<open>int\<close>.\<close>

function str_nat :: "nat \<Rightarrow> string" where
  "str_nat n = (if n < 10 then [ascii_digits ! n] else str_nat (n div 10) @ [ascii_digits ! (n mod 10)])"
  by pat_completeness auto
termination
  by (relation "measure (\<lambda>n. n)") auto

declare str_nat.simps [simp del]

text \<open>
  Python \<open>float\<close> values that come from outside (a language-model reply): a finite
  number, an infinity or NaN. Scores computed by the rules are sums of small integers
  and halves, which binary floating point represents exactly, so they are reals.
\<close>

datatype pyfloat = Finite real | PosInf | NegInf | NaN

text \<open>
  \<open>min(10.0, x)\<close>: Python's \<open>min\<close> keeps its first argument unless a later one is
  strictly smaller, so a NaN gives \<open>10.0\<close>.
\<close>

fun min10 :: "pyfloat \<Rightarrow> pyfloat" where
  "min10 (Finite x) = Finite (if x < 10 then x else 10)"
| "min10 PosInf = Finite 10"
| "min10 NegInf = NegInf"
| "min10 NaN = Finite 10"

text \<open>\<open>Optional[str]\<close> in a boolean position, and \<open>a or b\<close> on such values.\<close>

fun truthy :: "string option \<Rightarrow> bool" where
  "truthy None = False"
| "truthy (Some s) = (s \<noteq> [])"

definition py_or :: "string option \<Rightarrow> string option \<Rightarrow> string option" where
  "py_or a b = (if truthy a then a else b)"

section \<open>The resilient fetcher: \<open>HttpClient.get_async\<close> (utils/http\_utils.py)\<close>

text \<open>
  One call of \<open>client.get\<close> either yields a response or raises. The three exception
  classes named in the \<open>except\<close> clause are kept apart from every other exception the
  transport may raise; \<open>RetriesExhausted\<close> is the plain \<open>Exception\<close> raised after the loop.
\<close>

datatype http_error =
    ConnectError
  | ReadTimeout
  | ConnectTimeout
  | OtherTransportError
  | RetriesExhausted int

record response =
  status_code :: int
  body :: string

datatype outcome = Response response | Raised http_error

record http_client =
  base_url :: string

text \<open>\<open>url if url.startswith("http") else f"{self.base_url}{url}"\<close>\<close>

definition full_url :: "http_client \<Rightarrow> string \<Rightarrow> string" where
  "full_url self url = (if startswith url ''http'' then url else base_url self @ url)"

text \<open>The handler \<open>except (httpx.ConnectError, httpx.ReadTimeout, httpx.ConnectTimeout)\<close>.\<close>

fun caught :: "http_error \<Rightarrow> bool" where
  "caught ConnectError = True"
| "caught ReadTimeout = True"
| "caught ConnectTimeout = True"
| "caught _ = False"

text \<open>
  The \<open>while retry_count < max_retries\<close> loop. \<open>retry_count\<close> starts at 0 and is only ever
  incremented, once per request that did not return, so it is a natural number and also
  the index of the next request; \<open>net i\<close> is what request number \<open>i\<close> (from 0) does.
  The result is paired with the number of requests that were issued.
\<close>

function get_async_loop ::
  "(nat \<Rightarrow> outcome) \<Rightarrow> int \<Rightarrow> nat \<Rightarrow> (http_error + response) \<times> nat" where
  "get_async_loop net max_retries retry_count =
     (if int retry_count < max_retries then
        (case net retry_count of
           Response r \<Rightarrow>
             if status_code r = 200 then (Inr r, Suc retry_count)
             else if status_code r \<noteq> 429 \<and> \<not> (500 \<le> status_code r \<and> status_code r < 600)
               then (Inr r, Suc retry_count)
             else get_async_loop net max_retries (Suc retry_count)
         | Raised e \<Rightarrow>
             if caught e then
               (if max_retries \<le> int (Suc retry_count) then (Inl e, Suc retry_count)
                else get_async_loop net max_retries (Suc retry_count))
             else (Inl e, Suc retry_count))
      else (Inl (RetriesExhausted max_retries), retry_count))"
  by pat_completeness auto
termination
  by (relation "measure (\<lambda>(net, max_retries, retry_count). nat (max_retries - int retry_count))")
    auto

declare get_async_loop.simps [simp del]

text \<open>
  \<open>get_async\<close>: the network is a function of the URL requested (the query parameters
  are fixed for the call and are part of what \<open>net\<close> stands for).
\<close>

definition get_async ::
  "http_client \<Rightarrow> (string \<Rightarrow> nat \<Rightarrow> outcome) \<Rightarrow> string \<Rightarrow> int
     \<Rightarrow> (http_error + response) \<times> nat" where
  "get_async self net url max_retries = get_async_loop (net (full_url self url)) max_retries 0"

text \<open>The default \<open>max_retries: int = 3\<close>.\<close>

definition get_async_default ::
  "http_client \<Rightarrow> (string \<Rightarrow> nat \<Rightarrow> outcome) \<Rightarrow> string \<Rightarrow> (http_error + response) \<times> nat" where
  "get_async_default self net url = get_async self net url 3"





section \<open>The suitability scorer for products (agents/recommendation\_agent.py)\<close>

subsection \<open>Data\<close>

text \<open>
  Exceptions as values. \<open>ValidationError\<close> is what a pydantic model raises when a field
  violates its declaration; \<open>ExternalError\<close> stands for whatever an external call
  (language model, web search, scraper) or the parsing of its reply raises.
\<close>

datatype py_error = ValidationError | IndexError | ExternalError string

text \<open>
  The product dictionary as \<open>extract_product_data\<close> builds it (fields \<open>product_id\<close>, \<open>title\<close>, \<open>url\<close>,
  \<open>price\<close>, \<open>image_url\<close>): \<open>product_id\<close> and \<open>image_url\<close> may be Python's \<open>None\<close>.
\<close>

record product =
  p_product_id :: "string option"
  p_title :: string
  p_url :: string
  p_price :: string
  p_image_url :: "string option"

record ProductReview =
  rv_product_id :: string
  rv_title :: string
  rv_source :: string
  rv_content :: string
  rv_rating :: "real option"

record ProductRecommendation =
  pr_product_id :: string
  pr_title :: string
  pr_url :: string
  pr_price :: string
  pr_image_url :: "string option"
  pr_rating :: "real option"
  pr_reviews :: "string list"
  pr_recommendation_reason :: string
  pr_suitability_score :: real

text \<open>
  The constructor of the pydantic model: \<open>product_id: str\<close> rejects \<open>None\<close>, and
  \<open>suitability_score: float = Field(ge=0, le=10)\<close> rejects a score outside \<open>[0, 10]\<close>
  (NaN and the infinities fail the comparisons). \<open>rating\<close> is never passed and keeps
  its default \<open>None\<close>.
\<close>

definition ProductRecommendation_init ::
  "string option \<Rightarrow> string \<Rightarrow> string \<Rightarrow> string \<Rightarrow> string option \<Rightarrow> string list \<Rightarrow> string
     \<Rightarrow> pyfloat \<Rightarrow> py_error + ProductRecommendation" where
  "ProductRecommendation_init pid ttl u pr img revs reason score =
     (case pid of
        None \<Rightarrow> Inl ValidationError
      | Some i \<Rightarrow>
          (case score of
             Finite s \<Rightarrow>
               if 0 \<le> s \<and> s \<le> 10 then
                 Inr \<lparr>pr_product_id = i, pr_title = ttl, pr_url = u, pr_price = pr,
                      pr_image_url = img, pr_rating = None, pr_reviews = revs,
                      pr_recommendation_reason = reason, pr_suitability_score = s\<rparr>
               else Inl ValidationError
           | _ \<Rightarrow> Inl ValidationError))"

text \<open>
  What the language model's JSON reply yields after \<open>json.loads\<close>, \<open>float(...)\<close> and the
  \<open>.get\<close> defaults.
\<close>

record ai_analysis =
  ai_suitability_score :: pyfloat
  ai_recommendation_reason :: string
  key_benefits :: "string list"
  cautions :: "string list"

record RecommendationAgent =
  openai_api_key :: "string option"

record GroomerAgent =
  tavily_api_key :: "string option"

text \<open>
  The groomer dictionaries: \<open>groomer_listing\<close> is what \<open>search_petbacker_groomers\<close> returns
  (every key may be missing), \<open>groomer_data\<close> is what \<open>analyze_groomer_suitability\<close>
  receives. \<open>None\<close> is a missing key.
\<close>

record groomer_listing =
  gl_name :: "string option"
  gl_url :: "string option"
  gl_about :: "string option"
  gl_rating :: "real option"
  gl_reviews :: "string list option"
  gl_services :: "string list option"
  gl_location :: "string option"
  gl_contact_info :: "string option"
  gl_image_url :: "string option"
  gl_breed_compatibility :: "real option"

record groomer_data =
  gd_title :: "string option"
  gd_url :: "string option"
  gd_content :: "string option"
  gd_id :: "string option"
  gd_rating :: "real option"
  gd_reviews :: "string list option"
  gd_services :: "string list option"
  gd_location :: "string option"
  gd_contact_info :: "string option"
  gd_image_url :: "string option"
  gd_breed_compatibility :: "real option"

record GroomerRecommendation =
  gr_groomer_id :: string
  gr_name :: string
  gr_url :: string
  gr_location :: string
  gr_services :: "string list"
  gr_rating :: "real option"
  gr_reviews :: "string list"
  gr_recommendation_reason :: string
  gr_suitability_score :: real
  gr_image_url :: "string option"
  gr_contact_info :: "string option"

text \<open>The pydantic constructor: \<open>suitability_score: float = Field(ge=0, le=10)\<close>.\<close>

definition GroomerRecommendation_init ::
  "string \<Rightarrow> string \<Rightarrow> string \<Rightarrow> string \<Rightarrow> string list \<Rightarrow> real option \<Rightarrow> string list \<Rightarrow> string
     \<Rightarrow> pyfloat \<Rightarrow> string option \<Rightarrow> string option \<Rightarrow> py_error + GroomerRecommendation" where
  "GroomerRecommendation_init gid name u loc services rating revs reason score img contact =
     (case score of
        Finite s \<Rightarrow>
          if 0 \<le> s \<and> s \<le> 10 then
            Inr \<lparr>gr_groomer_id = gid, gr_name = name, gr_url = u, gr_location = loc,
                 gr_services = services, gr_rating = rating, gr_reviews = revs,
                 gr_recommendation_reason = reason, gr_suitability_score = s,
                 gr_image_url = img, gr_contact_info = contact\<rparr>
          else Inl ValidationError
      | _ \<Rightarrow> Inl ValidationError)"

text \<open>
  The external collaborators, as functions of what the code passes to them: the process
  environment, the language-model calls (prompt construction, request and reply parsing
  together), the review search of \<open>ReviewScraper\<close>, the PetBacker scraper, Python's
  formatting of floats (\<open>str(x)\<close> and \<open>f"{x:.1f}"\<close>), and the three regular-expression
  searches that \<open>analyze_groomer_suitability\<close> runs on a groomer's free text (location,
  rating, contact number; \<open>None\<close> when there is no match).
\<close>

record world =
  environ_OPENAI_API_KEY :: "string option"
  ai_product_analysis ::
    "product \<Rightarrow> ProductReview list \<Rightarrow> string \<Rightarrow> string \<Rightarrow> py_error + ai_analysis"
  ai_product_summary :: "string \<Rightarrow> string \<Rightarrow> string \<Rightarrow> ProductRecommendation list \<Rightarrow> py_error + string"
  ai_groomer_analysis :: "groomer_data \<Rightarrow> string \<Rightarrow> py_error + pyfloat \<times> string"
  ai_groomer_summary :: "string \<Rightarrow> GroomerRecommendation list \<Rightarrow> py_error + string"
  search_for_reviews :: "string \<Rightarrow> string \<Rightarrow> string \<Rightarrow> py_error + ProductReview list"
  search_petbacker_groomers :: "string \<Rightarrow> string \<Rightarrow> int \<Rightarrow> py_error + groomer_listing list"
  str_float :: "real \<Rightarrow> string"
  format_1f :: "real \<Rightarrow> string"
  find_location :: "string \<Rightarrow> string option"
  find_rating :: "string \<Rightarrow> real option"
  find_contact :: "string \<Rightarrow> string option"

subsection \<open>The rule-based strategy\<close>

text \<open>\<open>all_review_content\<close>: every review's content followed by a space.\<close>

definition all_review_content :: "ProductReview list \<Rightarrow> string" where
  "all_review_content reviews = concat (map (\<lambda>review. rv_content review @ '' '') reviews)"

definition breed_synonyms :: "string \<Rightarrow> string list" where
  "breed_synonyms b =
     (if b = ''bulldog'' then
        [''english bulldog'', ''british bulldog'', ''brachycephalic'', ''flat-faced'', ''short-snout'']
      else if b = ''german shepherd'' then [''gsd'', ''alsatian'', ''shepherd'', ''police dog'']
      else if b = ''labrador'' then [''lab'', ''retriever'', ''labrador retriever'']
      else if b = ''poodle'' then [''toy poodle'', ''miniature poodle'', ''standard poodle'']
      else if b = ''shih tzu'' then [''shitzu'', ''chrysanthemum dog'', ''small breeds'']
      else [])"

definition breed_terms :: "string \<Rightarrow> string list" where
  "breed_terms dog_breed = [py_lower dog_breed] @ breed_synonyms (py_lower dog_breed)"

definition age_terms :: "string \<Rightarrow> string list" where
  "age_terms age =
     [py_lower age] @
     (if py_lower age = ''puppy'' then [''young'', ''growing'', ''junior'', ''youth'']
      else if py_lower age = ''adult'' then [''mature'', ''grown'', ''senior'']
      else [])"

text \<open>\<open>any(term in title.lower() for term in terms)\<close>\<close>

definition in_title :: "string list \<Rightarrow> string \<Rightarrow> bool" where
  "in_title terms ttl = list_ex (\<lambda>term. py_in term (py_lower ttl)) terms"

text \<open>
  The counting loops: for each term that occurs in the lower-cased review text, add
  the number of its occurrences.
\<close>

definition mentions :: "string list \<Rightarrow> ProductReview list \<Rightarrow> nat" where
  "mentions terms reviews =
     foldl (\<lambda>n term.
              if py_in term (py_lower (all_review_content reviews))
              then n + py_count (py_lower (all_review_content reviews)) term else n)
       0 terms"

definition bulldog_terms :: "string list" where
  "bulldog_terms = [''joint'', ''hip'', ''breath'', ''skin'', ''allergies'', ''cooling'', ''grain-free'']"

definition gsd_terms :: "string list" where
  "gsd_terms = [''joint'', ''hip'', ''digestive'', ''gut'', ''protein'', ''calcium'']"

definition nutrition_hits :: "string list \<Rightarrow> ProductReview list \<Rightarrow> real" where
  "nutrition_hits terms reviews =
     foldl (\<lambda>score term.
              if py_in term (py_lower (all_review_content reviews)) then score + 0.5 else score)
       0 terms"

definition nutrition_score :: "string \<Rightarrow> ProductReview list \<Rightarrow> real" where
  "nutrition_score dog_breed reviews =
     (if py_lower dog_breed = ''bulldog'' then nutrition_hits bulldog_terms reviews
      else if py_lower dog_breed = ''german shepherd'' then nutrition_hits gsd_terms reviews
      else 0)"

text \<open>The running total of \<open>suitability_score\<close> before the floor, term by term.\<close>

definition breed_title_bonus :: "string \<Rightarrow> string \<Rightarrow> real" where
  "breed_title_bonus ttl dog_breed = (if in_title (breed_terms dog_breed) ttl then 3 else 0)"

definition breed_review_bonus :: "ProductReview list \<Rightarrow> string \<Rightarrow> real" where
  "breed_review_bonus reviews dog_breed =
     (if 0 < mentions (breed_terms dog_breed) reviews
      then min 3 (real (mentions (breed_terms dog_breed) reviews)) else 0)"

definition age_title_bonus :: "string \<Rightarrow> string \<Rightarrow> real" where
  "age_title_bonus ttl age = (if in_title (age_terms age) ttl then 2 else 0)"

definition age_review_bonus :: "ProductReview list \<Rightarrow> string \<Rightarrow> real" where
  "age_review_bonus reviews age =
     (if 0 < mentions (age_terms age) reviews
      then min 2 (real (mentions (age_terms age) reviews)) else 0)"

definition nutrition_bonus :: "ProductReview list \<Rightarrow> string \<Rightarrow> real" where
  "nutrition_bonus reviews dog_breed = min 2 (nutrition_score dog_breed reviews)"

definition rule_total :: "string \<Rightarrow> ProductReview list \<Rightarrow> string \<Rightarrow> string \<Rightarrow> real" where
  "rule_total ttl reviews dog_breed age =
     0 + breed_title_bonus ttl dog_breed + breed_review_bonus reviews dog_breed
       + age_title_bonus ttl age + age_review_bonus reviews age
       + nutrition_bonus reviews dog_breed"

text \<open>\<open>if suitability_score < 2: suitability_score = 2\<close>\<close>

definition rule_score :: "string \<Rightarrow> ProductReview list \<Rightarrow> string \<Rightarrow> string \<Rightarrow> real" where
  "rule_score ttl reviews dog_breed age =
     (if rule_total ttl reviews dog_breed age < 2 then 2 else rule_total ttl reviews dog_breed age)"

definition rule_reason :: "real \<Rightarrow> string \<Rightarrow> string \<Rightarrow> string" where
  "rule_reason score dog_breed age =
     (if 8 \<le> score then
        ''Highly recommended for '' @ dog_breed @ '' '' @ age
        @ ''s. Reviews specifically mention this product working well for your breed.''
      else if 6 \<le> score then
        ''Good match for '' @ dog_breed @ '' '' @ age
        @ ''s based on multiple positive reviews and product details.''
      else if 4 \<le> score then
        ''May be suitable for '' @ dog_breed @ '' '' @ age
        @ ''s. Some reviews indicate compatibility but limited specific information available.''
      else
        ''Limited evidence this product is ideal for '' @ dog_breed @ '' '' @ age
        @ ''s. Contains some nutritional elements that could benefit your dog, ''
        @ ''but consider alternatives specifically formulated for '' @ dog_breed @ ''s.'')"

definition review_texts :: "ProductReview list \<Rightarrow> string list" where
  "review_texts reviews =
     (if map rv_content reviews = [] then [''No specific reviews found for this product.'']
      else map rv_content reviews)"

text \<open>The rule-based tail of \<open>analyze_product_suitability\<close> (from "use the rule-based approach" on).\<close>

definition rule_based_analysis ::
  "product \<Rightarrow> ProductReview list \<Rightarrow> string \<Rightarrow> string \<Rightarrow> py_error + ProductRecommendation" where
  "rule_based_analysis p reviews dog_breed age =
     ProductRecommendation_init (p_product_id p) (p_title p) (p_url p) (p_price p) (p_image_url p)
       (review_texts reviews)
       (rule_reason (rule_score (p_title p) reviews dog_breed age) dog_breed age)
       (min10 (Finite (rule_score (p_title p) reviews dog_breed age)))"

subsection \<open>The AI strategy and the fall-back\<close>

definition bullet :: string where
  "bullet = [CHR 0xE2, CHR 0x80, CHR 0xA2]"

definition formatted_reason :: "ai_analysis \<Rightarrow> string" where
  "formatted_reason a =
     ai_recommendation_reason a
     @ (if key_benefits a \<noteq> [] then
          nl @ nl @ ''Key Benefits:'' @ nl
          @ py_join nl (map (\<lambda>benefit. bullet @ '' '' @ benefit) (key_benefits a))
        else [])
     @ (if cautions a \<noteq> [] then
          nl @ nl @ ''Considerations:'' @ nl
          @ py_join nl (map (\<lambda>caution. bullet @ '' '' @ caution) (cautions a))
        else [])"

definition structured_reviews :: "world \<Rightarrow> ProductReview list \<Rightarrow> string list" where
  "structured_reviews w reviews =
     map (\<lambda>review.
            ''Source: '' @ rv_title review @ nl
            @ (case rv_rating review of
                 None \<Rightarrow> []
               | Some x \<Rightarrow> if x \<noteq> 0 then ''Rating: '' @ str_float w x @ ''/5'' @ nl else [])
            @ ''Content: '' @ take 300 (rv_content review) @ ''...'')
       reviews"

text \<open>The body of the \<open>try\<close> block: any exception in it leads to the rule-based tail.\<close>

definition ai_attempt ::
  "world \<Rightarrow> product \<Rightarrow> ProductReview list \<Rightarrow> string \<Rightarrow> string \<Rightarrow> py_error + ProductRecommendation" where
  "ai_attempt w p reviews dog_breed age =
     (case ai_product_analysis w p reviews dog_breed age of
        Inl e \<Rightarrow> Inl e
      | Inr a \<Rightarrow>
          ProductRecommendation_init (p_product_id p) (p_title p) (p_url p) (p_price p) (p_image_url p)
            (take 3 (structured_reviews w reviews)) (formatted_reason a)
            (min10 (ai_suitability_score a)))"

definition product_credential :: "RecommendationAgent \<Rightarrow> world \<Rightarrow> string option \<Rightarrow> string option" where
  "product_credential self w api_key =
     py_or api_key (py_or (openai_api_key self) (environ_OPENAI_API_KEY w))"

definition analyze_product_suitability ::
  "RecommendationAgent \<Rightarrow> world \<Rightarrow> product \<Rightarrow> ProductReview list \<Rightarrow> string \<Rightarrow> string
     \<Rightarrow> string option \<Rightarrow> py_error + ProductRecommendation" where
  "analyze_product_suitability self w p reviews dog_breed age api_key =
     (if truthy (product_credential self w api_key) then
        (case ai_attempt w p reviews dog_breed age of
           Inr recommendation \<Rightarrow> Inr recommendation
         | Inl e \<Rightarrow> rule_based_analysis p reviews dog_breed age)
      else rule_based_analysis p reviews dog_breed age)"

section \<open>The groomer agent (agents/recommendation\_agent.py)\<close>

subsection \<open>\<open>GroomerAgent.search_for_groomers\<close>\<close>

text \<open>\<open>d.get(key, default)\<close>\<close>

definition get_or :: "'a option \<Rightarrow> 'a \<Rightarrow> 'a" where
  "get_or v d = (case v of None \<Rightarrow> d | Some x \<Rightarrow> x)"

definition listing_result :: "string \<Rightarrow> groomer_listing \<Rightarrow> groomer_data" where
  "listing_result location groomer =
     \<lparr>gd_title = Some (get_or (gl_name groomer) ''Unknown Groomer''),
      gd_url = Some (get_or (gl_url groomer) []),
      gd_content = Some (get_or (gl_about groomer) []),
      gd_id = None,
      gd_rating = Some (get_or (gl_rating groomer) 0),
      gd_reviews = Some (get_or (gl_reviews groomer) []),
      gd_services = Some (get_or (gl_services groomer) []),
      gd_location = Some (get_or (gl_location groomer) location),
      gd_contact_info = Some (get_or (gl_contact_info groomer) ''Contact via petbacker.ph''),
      gd_image_url = Some (get_or (gl_image_url groomer) []),
      gd_breed_compatibility = Some (get_or (gl_breed_compatibility groomer) 7.0)\<rparr>"

definition mock_groomers :: "string \<Rightarrow> groomer_data list" where
  "mock_groomers dog_breed =
     [\<lparr>gd_title = Some (''Professional '' @ dog_breed @ '' Groomer''),
       gd_url = Some ''https://www.petbacker.ph/s/dog-grooming/manila--metro-manila--philippines'',
       gd_content = Some (''We specialize in grooming '' @ dog_breed
         @ '' dogs with over 5 years of experience. ''
         @ ''Our services include bathing, haircuts, nail trimming, and more.''),
       gd_id = None,
       gd_rating = Some 4.8,
       gd_reviews = Some [''Great experience with my '' @ dog_breed @ ''!'', ''Very professional service''],
       gd_services = Some [''Full Grooming'', ''Bathing'', ''Nail Trimming''],
       gd_location = Some ''Manila, Philippines'',
       gd_contact_info = Some ''Contact via petbacker.ph'',
       gd_image_url = None,
       gd_breed_compatibility = Some 8.0\<rparr>]"

text \<open>
  The \<open>try\<close> block returns the converted results when there are any; an exception of the
  scraper, or no result, leads to the mock data.
\<close>

definition search_for_groomers ::
  "GroomerAgent \<Rightarrow> world \<Rightarrow> string \<Rightarrow> string \<Rightarrow> int \<Rightarrow> groomer_data list" where
  "search_for_groomers self w dog_breed location max_results =
     (case search_petbacker_groomers w dog_breed location max_results of
        Inr groomers \<Rightarrow>
          if map (listing_result location) groomers \<noteq> []
          then map (listing_result location) groomers
          else mock_groomers dog_breed
      | Inl e \<Rightarrow> mock_groomers dog_breed)"

subsection \<open>\<open>GroomerAgent.analyze_groomer_suitability\<close>: the URL\<close>

definition profile_patterns :: "string list" where
  "profile_patterns =
     [''/profile/'', ''/philippines/grooming/'', ''/ph/pet-sitter/'', ''/pet-sitter/'', ''/groomer/'']"

definition is_profile_url :: "string \<Rightarrow> bool" where
  "is_profile_url u = list_ex (\<lambda>pattern. py_in pattern u) profile_patterns"

text \<open>
  \<open>re.search(r'/s/[^/]+/([^/]+)$', url)\<close>. \<open>match_location\<close> is the match attempted at the
  start of its argument: \<open>/s/\<close>, the longest slash-free run (which must be non-empty and
  followed by a slash), and then a non-empty slash-free rest up to the end of the string,
  which is group 1. \<open>search_location\<close> tries the positions from the left.
\<close>

definition match_location :: "string \<Rightarrow> string option" where
  "match_location s =
     (if startswith s ''/s/'' then
        (let seg = takeWhile (\<lambda>c. c \<noteq> CHR ''/'') (drop 3 s);
             rest = dropWhile (\<lambda>c. c \<noteq> CHR ''/'') (drop 3 s)
         in if seg \<noteq> [] \<and> rest \<noteq> [] \<and> tl rest \<noteq> [] \<and> CHR ''/'' \<notin> set (tl rest)
            then Some (tl rest) else None)
      else None)"

fun search_location :: "string \<Rightarrow> string option" where
  "search_location [] = None"
| "search_location (c # cs) =
     (case match_location (c # cs) of Some l \<Rightarrow> Some l | None \<Rightarrow> search_location cs)"

text \<open>The \<open>if not url: ... else: ...\<close> block that settles \<open>url\<close>.\<close>

definition groomer_url :: "groomer_data \<Rightarrow> string \<Rightarrow> string" where
  "groomer_url groomer_data dog_breed =
     (let ttl = get_or (gd_title groomer_data) ''Unknown Groomer'';
          u = get_or (gd_url groomer_data) [];
          groomer_id_str = get_or (gd_id groomer_data) []
      in
        if u = [] then
          ''https://www.petbacker.ph/pet-sitter/'' @ slug (py_lower dog_breed) @ ''-specialist/''
            @ ''manila--metro-manila--philippines''
        else if \<not> is_profile_url u then
          (if groomer_id_str \<noteq> [] \<and> \<not> py_in ''groomer-'' groomer_id_str then
             ''https://www.petbacker.ph/profile/'' @ groomer_id_str
           else if py_in ''/philippines/grooming/'' u then u
           else if py_in ''petbacker.ph/s/'' u then
             ''https://www.petbacker.ph/philippines/grooming/''
               @ get_or (search_location u) ''metro-manila--philippines''
               @ ''/'' @ slug (py_lower ttl)
           else u)
        else u)"

subsection \<open>\<open>GroomerAgent.analyze_groomer_suitability\<close>: services, score and result\<close>

definition service_map :: "(string \<times> string) list" where
  "service_map =
     [(''bath'', ''Bathing''), (''groom'', ''Full Grooming''), (''haircut'', ''Haircut & Styling''),
      (''nail'', ''Nail Trimming''), (''trim'', ''Trimming''),
      (''shampoo'', ''Specialized Shampoo Treatment''), (''brush'', ''Brushing & De-shedding''),
      (''teeth'', ''Teeth Cleaning''), (''ear'', ''Ear Cleaning'')]"

definition extract_services :: "string \<Rightarrow> string list" where
  "extract_services content =
     foldl (\<lambda>services (keyword, service).
              if py_in keyword (py_lower content) then
                (if service \<in> set services then services else services @ [service])
              else services)
       [] service_map"

definition experience_indicators :: "string list" where
  "experience_indicators = [''experience'', ''professional'', ''certified'', ''trained'', ''specialist'']"

text \<open>
  The rule-based groomer score: \<open>+5\<close> when the breed is named in the content or the title,
  \<open>+1\<close> for each experience indicator in the content, capped at 10.
\<close>

definition breed_named :: "string \<Rightarrow> string \<Rightarrow> string \<Rightarrow> bool" where
  "breed_named ttl content dog_breed =
     (py_in (py_lower dog_breed) (py_lower content) \<or> py_in (py_lower dog_breed) (py_lower ttl))"

definition groomer_rule_score :: "string \<Rightarrow> string \<Rightarrow> string \<Rightarrow> real" where
  "groomer_rule_score ttl content dog_breed =
     min 10
       (foldl (\<lambda>score indicator. if py_in indicator (py_lower content) then score + 1 else score)
          (if breed_named ttl content dog_breed then 0 + 5 else 0)
          experience_indicators)"

definition groomer_reason :: "real \<Rightarrow> string \<Rightarrow> string" where
  "groomer_reason score dog_breed =
     (if 7 \<le> score then
        ''Highly recommended groomer for '' @ dog_breed @ '' dogs with specialized experience.''
      else if 5 \<le> score then
        ''Good groomer with some experience handling '' @ dog_breed @ '' dogs.''
      else ''General pet groomer that may be able to handle '' @ dog_breed @ '' dogs.'')"

definition groomer_credential :: "world \<Rightarrow> string option \<Rightarrow> string option" where
  "groomer_credential w api_key = py_or api_key (environ_OPENAI_API_KEY w)"

text \<open>
  The score and the reason, by the three ways through the function: the language model
  answered (its score is passed on as it is), the language model failed (rules), or no
  credential or a seed in the dictionary (the seed, or the rules when the seed is 0 or
  missing).
\<close>

definition groomer_score_reason ::
  "world \<Rightarrow> groomer_data \<Rightarrow> string \<Rightarrow> string option \<Rightarrow> pyfloat \<times> string" where
  "groomer_score_reason w groomer_data dog_breed api_key =
     (let ttl = get_or (gd_title groomer_data) ''Unknown Groomer'';
          content = get_or (gd_content groomer_data) []
      in
        if truthy (groomer_credential w api_key) \<and> gd_breed_compatibility groomer_data = None then
          (case ai_groomer_analysis w groomer_data dog_breed of
             Inr (suitability_score, recommendation_reason) \<Rightarrow>
               (suitability_score, recommendation_reason)
           | Inl e \<Rightarrow>
               (Finite (groomer_rule_score ttl content dog_breed),
                groomer_reason (groomer_rule_score ttl content dog_breed) dog_breed))
        else
          (let seed = get_or (gd_breed_compatibility groomer_data) 0.0;
               suitability_score =
                 (if seed = 0.0 then groomer_rule_score ttl content dog_breed else seed)
           in (Finite suitability_score, groomer_reason suitability_score dog_breed)))"

definition analyze_groomer_suitability ::
  "GroomerAgent \<Rightarrow> world \<Rightarrow> groomer_data \<Rightarrow> string \<Rightarrow> string option
     \<Rightarrow> py_error + GroomerRecommendation" where
  "analyze_groomer_suitability self w groomer_data dog_breed api_key =
     (let ttl = get_or (gd_title groomer_data) ''Unknown Groomer'';
          u = groomer_url groomer_data dog_breed;
          content = get_or (gd_content groomer_data) []
      in GroomerRecommendation_init
           (slug u) ttl u
           (get_or (find_location w content) ''Philippines'')
           (extract_services content)
           (find_rating w content)
           [content]
           (snd (groomer_score_reason w groomer_data dog_breed api_key))
           (fst (groomer_score_reason w groomer_data dog_breed api_key))
           None
           (find_contact w content))"

section \<open>The recommendation composer: \<open>get_product_recommendations\<close>\<close>

record RecommendationResponse =
  rs_query :: string
  rs_dog_breed :: string
  rs_age :: string
  rs_recommendations :: "ProductRecommendation list"
  rs_groomer_recommendations :: "GroomerRecommendation list option"
  rs_summary :: string
  rs_groomer_summary :: "string option"

text \<open>
  \<open>sorted(xs, key=lambda x: x.suitability_score, reverse=True)\<close>: Python's sort is stable, and
  \<open>reverse=True\<close> keeps the original order of elements with equal keys, so the result is
  the stable sort by the negated score.
\<close>

definition sorted_by_score_desc :: "('a \<Rightarrow> real) \<Rightarrow> 'a list \<Rightarrow> 'a list" where
  "sorted_by_score_desc score xs = sort_key (\<lambda>x. - score x) xs"

text \<open>\<open>xs[:n]\<close>: a negative \<open>n\<close> counts from the end.\<close>

definition py_take :: "int \<Rightarrow> 'a list \<Rightarrow> 'a list" where
  "py_take n xs = (if 0 \<le> n then take (nat n) xs else take (length xs - nat (- n)) xs)"

subsection \<open>Summaries\<close>

definition quote :: string where
  "quote = [CHR 0x27]"

definition product_summary_template ::
  "world \<Rightarrow> string \<Rightarrow> string \<Rightarrow> string \<Rightarrow> ProductRecommendation list \<Rightarrow> string" where
  "product_summary_template w query dog_breed age recommendations =
     (case sorted_by_score_desc pr_suitability_score recommendations of
        [] \<Rightarrow>
          ''We analyzed products for your '' @ dog_breed @ '' '' @ age
          @ '' based on your search for '' @ quote @ query @ quote @ '', ''
          @ ''but couldn't find highly specific recommendations. ''
          @ ''The listed products may still be suitable, but you might want to consult with ''
          @ ''a vet or pet nutritionist.''
      | top_recommendation # others \<Rightarrow>
          ''Based on your search for '' @ quote @ query @ quote @ '' for your '' @ dog_breed
          @ '' '' @ age @ '', ''
          @ ''we highly recommend '' @ pr_title top_recommendation @ '' ''
          @ ''(Suitability Score: '' @ format_1f w (pr_suitability_score top_recommendation)
          @ ''/10). ''
          @ nl @ nl @ pr_recommendation_reason top_recommendation
          @ (if 1 < length (top_recommendation # others) then
               nl @ nl @ ''We've also found '' @ str_nat (length (top_recommendation # others) - 1)
               @ '' other products '' @ ''that might be suitable for your '' @ dog_breed @ '' ''
               @ age @ ''.''
             else []))"

definition generate_recommendations_summary ::
  "RecommendationAgent \<Rightarrow> world \<Rightarrow> string \<Rightarrow> string \<Rightarrow> string \<Rightarrow> ProductRecommendation list
     \<Rightarrow> string option \<Rightarrow> string" where
  "generate_recommendations_summary self w query dog_breed age recommendations api_key =
     (if recommendations = [] then
        ''No suitable products found for '' @ dog_breed @ '' '' @ age
        @ ''s based on your search for '' @ quote @ query @ quote @ ''.''
      else if truthy (product_credential self w api_key) \<and> recommendations \<noteq> [] then
        (case ai_product_summary w query dog_breed age recommendations of
           Inr text \<Rightarrow> text
         | Inl e \<Rightarrow> product_summary_template w query dog_breed age recommendations)
      else product_summary_template w query dog_breed age recommendations)"

text \<open>
  The template of \<open>generate_groomer_summary\<close> reads \<open>groomers[0]\<close>; it is only reached with
  a non-empty list, and the model gives the empty list the text of the empty case.
\<close>

definition no_groomers_text :: "string \<Rightarrow> string" where
  "no_groomers_text dog_breed =
     ''We couldn't find any specialized groomers for your '' @ dog_breed @ ''.''"

definition groomer_summary_template :: "world \<Rightarrow> string \<Rightarrow> GroomerRecommendation list \<Rightarrow> string" where
  "groomer_summary_template w dog_breed groomers =
     (case groomers of
        [] \<Rightarrow> no_groomers_text dog_breed
      | top_groomer # others \<Rightarrow>
          ''Based on our search for groomers specializing in '' @ dog_breed
          @ '' dogs, we highly recommend '' @ gr_name top_groomer
          @ '' (Suitability Score: '' @ format_1f w (gr_suitability_score top_groomer) @ ''/10). ''
          @ nl @ nl @ gr_recommendation_reason top_groomer @ nl @ nl
          @ ''We've also found '' @ str_nat (length (top_groomer # others) - 1)
          @ '' other groomers that might be suitable for your '' @ dog_breed @ ''.'')"

definition generate_groomer_summary ::
  "GroomerAgent \<Rightarrow> world \<Rightarrow> string \<Rightarrow> GroomerRecommendation list \<Rightarrow> string option \<Rightarrow> string" where
  "generate_groomer_summary self w dog_breed groomers api_key =
     (if groomers = [] then no_groomers_text dog_breed
      else if \<not> truthy (groomer_credential w api_key) then
        groomer_summary_template w dog_breed groomers
      else
        (case ai_groomer_summary w dog_breed groomers of
           Inr text \<Rightarrow> text
         | Inl e \<Rightarrow> groomer_summary_template w dog_breed groomers))"

subsection \<open>The product loop and the groomer block\<close>

text \<open>
  One round of the product loop: the reviews (an exception of the search gives the empty
  list), then the analysis (an exception skips the product).
\<close>

definition analyse_product ::
  "world \<Rightarrow> string \<Rightarrow> string \<Rightarrow> string option \<Rightarrow> ProductRecommendation list \<Rightarrow> product
     \<Rightarrow> ProductRecommendation list" where
  "analyse_product w dog_breed age openai_key recommendations p =
     (let product_reviews =
            (case search_for_reviews w (p_title p) dog_breed age of
               Inl e \<Rightarrow> []
             | Inr reviews \<Rightarrow> reviews)
      in case analyze_product_suitability \<lparr>openai_api_key = openai_key\<rparr> w p product_reviews
                dog_breed age openai_key of
           Inl e \<Rightarrow> recommendations
         | Inr recommendation \<Rightarrow> recommendations @ [recommendation])"

text \<open>The list \<open>recommendations\<close> when the loop is over, before it is sorted.\<close>

definition analysed_products ::
  "world \<Rightarrow> product list \<Rightarrow> string \<Rightarrow> string \<Rightarrow> string option \<Rightarrow> int
     \<Rightarrow> ProductRecommendation list" where
  "analysed_products w products dog_breed age openai_key max_products =
     foldl (analyse_product w dog_breed age openai_key) []
       (py_take (min (int (length products)) max_products) products)"

definition analyse_groomer ::
  "world \<Rightarrow> string \<Rightarrow> string option \<Rightarrow> string option \<Rightarrow> GroomerRecommendation list
     \<Rightarrow> groomer_data \<Rightarrow> GroomerRecommendation list" where
  "analyse_groomer w dog_breed tavily_key openai_key groomer_recommendations g =
     (case analyze_groomer_suitability \<lparr>tavily_api_key = tavily_key\<rparr> w g dog_breed openai_key of
        Inl e \<Rightarrow> groomer_recommendations
      | Inr groomer \<Rightarrow> groomer_recommendations @ [groomer])"

text \<open>The list \<open>groomer_recommendations\<close> when the groomer loop is over, before it is sorted.\<close>

definition analysed_groomers ::
  "world \<Rightarrow> string \<Rightarrow> string option \<Rightarrow> string option \<Rightarrow> GroomerRecommendation list" where
  "analysed_groomers w dog_breed tavily_key openai_key =
     foldl (analyse_groomer w dog_breed tavily_key openai_key) []
       (search_for_groomers \<lparr>tavily_api_key = tavily_key\<rparr> w dog_breed ''Philippines'' 3)"

definition fallback_groomer :: "string \<Rightarrow> GroomerRecommendation" where
  "fallback_groomer dog_breed =
     \<lparr>gr_groomer_id = ''fallback-groomer'',
      gr_name = dog_breed @ '' Grooming Specialist'',
      gr_url = ''https://www.petbacker.ph/pet-sitter/'' @ slug (py_lower dog_breed)
        @ ''-specialist/manila--metro-manila--philippines'',
      gr_location = ''Philippines'',
      gr_services = [''Full Grooming'', ''Bathing'', ''Nail Trimming''],
      gr_rating = Some 4.5,
      gr_reviews = [''Specializes in '' @ dog_breed @ '' grooming and care.''],
      gr_recommendation_reason =
        ''General pet groomer that may be able to handle '' @ dog_breed @ '' dogs.'',
      gr_suitability_score = 6.5,
      gr_image_url = None,
      gr_contact_info = Some ''Contact via petbacker.ph''\<rparr>"

definition fallback_groomer_summary :: "string \<Rightarrow> string" where
  "fallback_groomer_summary dog_breed =
     ''We found a groomer that may be suitable for your '' @ dog_breed
     @ ''. Please contact them directly for more specific information about their ''
     @ ''experience with your dog breed.''"

text \<open>
  The groomer block, entered when \<open>include_groomers\<close> holds. Every call in it handles its
  own exceptions, so the handler that encloses the block (a single
  \<open>fallback-error-groomer\<close>) is never entered and has no counterpart here.
\<close>

definition groomer_block ::
  "world \<Rightarrow> string \<Rightarrow> string option \<Rightarrow> string option
     \<Rightarrow> GroomerRecommendation list \<times> string" where
  "groomer_block w dog_breed tavily_key openai_key =
     (if search_for_groomers \<lparr>tavily_api_key = tavily_key\<rparr> w dog_breed ''Philippines'' 3 \<noteq> [] then
        (if analysed_groomers w dog_breed tavily_key openai_key \<noteq> [] then
           (sorted_by_score_desc gr_suitability_score
              (analysed_groomers w dog_breed tavily_key openai_key),
            generate_groomer_summary \<lparr>tavily_api_key = tavily_key\<rparr> w dog_breed
              (sorted_by_score_desc gr_suitability_score
                 (analysed_groomers w dog_breed tavily_key openai_key))
              openai_key)
         else ([fallback_groomer dog_breed], fallback_groomer_summary dog_breed))
      else ([fallback_groomer dog_breed], fallback_groomer_summary dog_breed))"

definition get_product_recommendations ::
  "world \<Rightarrow> product list \<Rightarrow> string \<Rightarrow> string \<Rightarrow> string \<Rightarrow> string option \<Rightarrow> string option \<Rightarrow> int
     \<Rightarrow> bool \<Rightarrow> RecommendationResponse" where
  "get_product_recommendations w products query dog_breed age tavily_key openai_key max_products
       include_groomers =
     (let sorted_recommendations =
            sorted_by_score_desc pr_suitability_score
              (analysed_products w products dog_breed age openai_key max_products);
          summary =
            generate_recommendations_summary \<lparr>openai_api_key = openai_key\<rparr> w query dog_breed age
              sorted_recommendations openai_key
      in \<lparr>rs_query = query, rs_dog_breed = dog_breed, rs_age = age,
          rs_recommendations = sorted_recommendations,
          rs_groomer_recommendations =
            (if include_groomers
             then Some (fst (groomer_block w dog_breed tavily_key openai_key)) else None),
          rs_summary = summary,
          rs_groomer_summary =
            (if include_groomers
             then Some (snd (groomer_block w dog_breed tavily_key openai_key)) else None)\<rparr>)"

section \<open>The markup extractor: \<open>extract_product_data\<close> (scrapers/pet\_express\_scraper.py)\<close>

text \<open>
  What the CSS selectors find in one \<open>div.product-item\<close>: for the link and the image,
  \<open>None\<close> when the element is missing and otherwise its attribute (\<open>None\<close> when the
  attribute is missing); for the other elements their text; for the sold-out label
  whether it is there.
\<close>

record card =
  link_href :: "string option option"
  title_text :: "string option"
  img_data_src :: "string option option"
  price_text :: "string option"
  compare_price_text :: "string option"
  sold_out :: bool

text \<open>
  The libraries. \<open>product_cards html\<close> is \<open>BeautifulSoup(html, 'html5lib')\<close> followed by
  \<open>select('div.product-item')\<close> and the selections within each card; both calls stand
  before the \<open>try\<close> of the loop, and the html5lib tree builder raises on some inputs (an
  \<open>AssertionError\<close> on \<open><table><svg><html>\<close>, for one), so this is a function that may
  fail. \<open>urljoin\<close> is \<open>urllib.parse.urljoin\<close>, which raises \<open>ValueError\<close> on some malformed
  references. \<open>str_strip\<close> is Python's \<open>str.strip()\<close>, which removes every Unicode white-space
  character from both ends.
\<close>

record html_library =
  product_cards :: "string \<Rightarrow> py_error + card list"
  urljoin :: "string \<Rightarrow> string \<Rightarrow> py_error + string"
  str_strip :: "string \<Rightarrow> string"

text \<open>The dictionary appended to \<open>products\<close>: the keys of \<open>product\<close> and three more.\<close>

record scraped_product = product +
  p_compare_price :: "string option"
  p_on_sale :: bool
  p_in_stock :: bool

definition BASE_URL :: string where
  "BASE_URL = ''https://www.petexpress.com.ph''"

text \<open>\<open>s.split(sep)\<close> for a non-empty \<open>sep\<close>; \<open>acc\<close> is the piece being read.\<close>

fun py_split_from :: "string \<Rightarrow> string \<Rightarrow> string \<Rightarrow> string list" where
  "py_split_from sep acc [] = [acc]"
| "py_split_from sep acc (c # cs) =
     (if sep \<noteq> [] \<and> startswith (c # cs) sep
      then acc # py_split_from sep [] (drop (length sep) (c # cs))
      else py_split_from sep (acc @ [c]) cs)"

definition py_split :: "string \<Rightarrow> string \<Rightarrow> string list" where
  "py_split sep s = py_split_from sep [] s"

text \<open>\<open>product_url.split('products/')[1] if 'products/' in product_url else None\<close>\<close>

definition product_id_of :: "string \<Rightarrow> py_error + string option" where
  "product_id_of product_url =
     (if py_in ''products/'' product_url then
        (case py_split ''products/'' product_url of
           first # second # others \<Rightarrow> Inr (Some second)
         | _ \<Rightarrow> Inl IndexError)
      else Inr None)"

text \<open>
  The body of the \<open>try\<close> block for one card: \<open>Inr None\<close> is the \<open>continue\<close> for a card
  without link, \<open>Inl\<close> an exception.
\<close>

definition process_card :: "html_library \<Rightarrow> card \<Rightarrow> py_error + scraped_product option" where
  "process_card lib c =
     (case link_href c of
        None \<Rightarrow> Inr None
      | Some href \<Rightarrow>
          (case urljoin lib BASE_URL (get_or href []) of
             Inl e \<Rightarrow> Inl e
           | Inr product_url \<Rightarrow>
               (case product_id_of product_url of
                  Inl e \<Rightarrow> Inl e
                | Inr pid \<Rightarrow>
                    Inr (Some
                      \<lparr>p_product_id = pid,
                       p_title = (case title_text c of None \<Rightarrow> ''Unknown Title'' | Some t \<Rightarrow> str_strip lib t),
                       p_url = product_url,
                       p_price =
                         (case price_text c of None \<Rightarrow> ''Price not available'' | Some t \<Rightarrow> str_strip lib t),
                       p_image_url =
                         (case img_data_src c of
                            None \<Rightarrow> None
                          | Some src \<Rightarrow>
                              Some (if startswith (get_or src []) ''//''
                                    then ''https:'' @ get_or src [] else get_or src [])),
                       p_compare_price = map_option (str_strip lib) (compare_price_text c),
                       p_on_sale = (compare_price_text c \<noteq> None),
                       p_in_stock = (\<not> sold_out c)\<rparr>))))"

text \<open>
  One round of the loop over the cards: the product is appended; a card without link and
  a card whose processing raised leave \<open>products\<close> as it is, and the loop goes on.
\<close>

definition append_card :: "html_library \<Rightarrow> scraped_product list \<Rightarrow> card \<Rightarrow> scraped_product list" where
  "append_card lib products c =
     (case process_card lib c of
        Inr (Some p) \<Rightarrow> products @ [p]
      | Inr None \<Rightarrow> products
      | Inl e \<Rightarrow> products)"

definition extract_cards :: "html_library \<Rightarrow> card list \<Rightarrow> scraped_product list" where
  "extract_cards lib cards = foldl (append_card lib) [] cards"

text \<open>
  \<open>extract_product_data\<close>: an exception of the parse or of the selection is not handled
  and reaches the caller; otherwise the loop runs over the cards and the list is returned.
\<close>

definition extract_product_data :: "html_library \<Rightarrow> string \<Rightarrow> py_error + scraped_product list" where
  "extract_product_data lib html_content =
     (case product_cards lib html_content of
        Inl e \<Rightarrow> Inl e
      | Inr cards \<Rightarrow> Inr (extract_cards lib cards))"

section \<open>Concrete inputs\<close>

text \<open>
  A world without credentials and without network, a world whose language model is
  configured but fails, and (further down) a world whose language model answers with a
  score of 20.
\<close>

definition offline_world :: world where
  "offline_world =
     \<lparr>environ_OPENAI_API_KEY = None,
      ai_product_analysis = (\<lambda>p reviews dog_breed age. Inl (ExternalError ''no credential'')),
      ai_product_summary = (\<lambda>query dog_breed age recs. Inl (ExternalError ''no credential'')),
      ai_groomer_analysis = (\<lambda>g dog_breed. Inl (ExternalError ''no credential'')),
      ai_groomer_summary = (\<lambda>dog_breed groomers. Inl (ExternalError ''no credential'')),
      search_for_reviews = (\<lambda>ttl dog_breed age. Inl (ExternalError ''offline'')),
      search_petbacker_groomers = (\<lambda>dog_breed location max_results. Inl (ExternalError ''offline'')),
      str_float = (\<lambda>x. ''?''),
      format_1f = (\<lambda>x. ''?''),
      find_location = (\<lambda>content. None),
      find_rating = (\<lambda>content. None),
      find_contact = (\<lambda>content. None)\<rparr>"

definition ai_down_world :: world where
  "ai_down_world = offline_world\<lparr>environ_OPENAI_API_KEY := Some ''sk-test''\<rparr>"

definition no_agent_key :: RecommendationAgent where
  "no_agent_key = \<lparr>openai_api_key = None\<rparr>"

definition no_tavily_key :: GroomerAgent where
  "no_tavily_key = \<lparr>tavily_api_key = None\<rparr>"

definition chew_toy :: product where
  "chew_toy =
     \<lparr>p_product_id = Some ''chew-toy'', p_title = ''Chew Toy'',
      p_url = ''https://www.petexpress.com.ph/products/chew-toy'', p_price = ''P 100.00'',
      p_image_url = None\<rparr>"

definition bulldog_food :: product where
  "bulldog_food =
     \<lparr>p_product_id = Some ''bulldog-puppy-food'', p_title = ''Bulldog Puppy Food'',
      p_url = ''https://www.petexpress.com.ph/products/bulldog-puppy-food'',
      p_price = ''P 900.00'', p_image_url = None\<rparr>"

definition bulldog_review :: ProductReview where
  "bulldog_review =
     \<lparr>rv_product_id = ''bulldog-puppy-food'', rv_title = ''Review'', rv_source = ''example.com'',
      rv_content = ''Bulldog bulldog bulldog puppy puppy joint hip skin breath'', rv_rating = None\<rparr>"

definition generous_ai_world :: world where
  "generous_ai_world =
     offline_world
       \<lparr>environ_OPENAI_API_KEY := Some ''sk-test'',
        ai_product_analysis :=
          (\<lambda>p reviews dog_breed age.
             Inr \<lparr>ai_suitability_score = Finite 20, ai_recommendation_reason = ''Perfect.'',
                  key_benefits = [], cautions = []\<rparr>)\<rparr>"

text \<open>
  Groomer dictionaries: the mock record for a poodle, the same record under the listing URL
  of another host, a record that already has a profile URL, and one without a seed.
\<close>

definition poodle_mock :: groomer_data where
  "poodle_mock = hd (mock_groomers ''poodle'')"

definition site_listing_url :: string where
  "site_listing_url = ''https://site/s/dog-grooming/manila--metro-manila--philippines''"

definition site_groomer :: groomer_data where
  "site_groomer = poodle_mock\<lparr>gd_url := Some site_listing_url\<rparr>"

definition profile_groomer :: groomer_data where
  "profile_groomer = poodle_mock\<lparr>gd_url := Some ''https://www.petbacker.ph/profile/12345''\<rparr>"

definition unseeded_groomer :: groomer_data where
  "unseeded_groomer =
     poodle_mock\<lparr>gd_title := Some ''Poodle Parlor'',
                  gd_content := Some ''Certified and professional.'',
                  gd_breed_compatibility := None\<rparr>"

text \<open>A recommendation with a given name and score, to watch the sort at work.\<close>

definition rec_with :: "string \<Rightarrow> real \<Rightarrow> ProductRecommendation" where
  "rec_with name score =
     \<lparr>pr_product_id = name, pr_title = name, pr_url = [], pr_price = [], pr_image_url = None,
      pr_rating = None, pr_reviews = [], pr_recommendation_reason = [],
      pr_suitability_score = score\<rparr>"

text \<open>
  A library whose parser raises on \<open><table><svg><html>\<close> and finds four cards in every
  other page: a complete one, one without link, one whose link makes \<open>urljoin\<close> raise, and
  another complete one.
\<close>

text \<open>A \<open>strip\<close> for pages in ASCII: the ASCII white-space characters are removed.\<close>

definition is_space :: "char \<Rightarrow> bool" where
  "is_space c =
     (c \<in> set [CHR 0x09, CHR 0x0A, CHR 0x0B, CHR 0x0C, CHR 0x0D, CHR 0x1C, CHR 0x1D, CHR 0x1E,
                CHR 0x1F, CHR 0x20])"

definition ascii_strip :: "string \<Rightarrow> string" where
  "ascii_strip s = rev (dropWhile is_space (rev (dropWhile is_space s)))"

definition good_card :: card where
  "good_card =
     \<lparr>link_href = Some (Some ''/products/kibble''), title_text = Some '' Kibble '',
      img_data_src = Some (Some ''//cdn.example.com/kibble.jpg''), price_text = Some ''P 500.00'',
      compare_price_text = None, sold_out = False\<rparr>"

definition linkless_card :: card where
  "linkless_card = good_card\<lparr>link_href := None\<rparr>"

definition failing_card :: card where
  "failing_card = good_card\<lparr>link_href := Some (Some ''//['')\<rparr>"

definition other_card :: card where
  "other_card = good_card\<lparr>link_href := Some (Some ''/products/treats''), title_text := None\<rparr>"

definition demo_library :: html_library where
  "demo_library =
     \<lparr>product_cards =
        (\<lambda>html. if html = ''<table><svg><html>'' then Inl (ExternalError ''AssertionError'')
                 else Inr [good_card, linkless_card, failing_card, other_card]),
      urljoin = (\<lambda>base ref. if ref = ''//['' then Inl (ExternalError ''ValueError'')
                               else Inr (base @ ref)),
      str_strip = ascii_strip\<rparr>"

definition kibble :: scraped_product where
  "kibble =
     \<lparr>p_product_id = Some ''kibble'', p_title = ''Kibble'',
      p_url = ''https://www.petexpress.com.ph/products/kibble'', p_price = ''P 500.00'',
      p_image_url = Some ''https://cdn.example.com/kibble.jpg'',
      p_compare_price = None, p_on_sale = False, p_in_stock = True\<rparr>"

subsection \<open>Properties of the retry loop\<close>






lemma get_async_loop_bound:
  "n \<le> nat mr \<Longrightarrow> snd (get_async_loop net mr n) \<le> nat mr"
proof (induction net mr n rule: get_async_loop.induct)
  case (1 net max_retries retry_count)
  show ?case
  proof (cases "int retry_count < max_retries")
    case False
    with "1.prems" show ?thesis
      by (subst get_async_loop.simps) simp
  next
    case True
    then have le: "Suc retry_count \<le> nat max_retries" by linarith
    show ?thesis
    proof (cases "net retry_count")
      case (Response r)
      with True le "1.IH"(1) show ?thesis
        by (subst get_async_loop.simps) auto
    next
      case (Raised e)
      with True le "1.IH"(2) show ?thesis
        by (subst get_async_loop.simps) auto
    qed
  qed
qed




text \<open>
  C10. \<open>get_async\<close> terminates (the loop function is total, by the measure
  \<open>max_retries - retry_count\<close>) and issues at most \<open>max_retries\<close> requests, whatever the
  URL and whatever the responses and transport errors; with the default, at most 3.
  For \<open>max_retries \<le> 0\<close> it issues none.
\<close>

theorem get_async_attempts_bounded:
  "snd (get_async self net url max_retries) \<le> nat max_retries
   \<and> snd (get_async_default self net url) \<le> 3"
proof -
  have "snd (get_async_loop n mr 0) \<le> nat mr" for n mr
    by (rule get_async_loop_bound) simp
  from this [of "net (full_url self url)" max_retries] this [of "net (full_url self url)" 3]
  show ?thesis
    by (simp add: get_async_def get_async_default_def)
qed

subsection \<open>Properties of the product scorer\<close>


lemma rule_score_ge_2: "2 \<le> rule_score ttl reviews dog_breed age"
  by (simp add: rule_score_def)

lemma ProductRecommendation_init_score:
  assumes "ProductRecommendation_init pid ttl u pr img revs reason score = Inr r"
  shows "score = Finite (pr_suitability_score r) \<and> 0 \<le> pr_suitability_score r
         \<and> pr_suitability_score r \<le> 10"
  using assms
  by (auto simp: ProductRecommendation_init_def split: option.splits pyfloat.splits if_splits)

lemma rule_based_analysis_score:
  assumes "rule_based_analysis p reviews dog_breed age = Inr r"
  shows "pr_suitability_score r = min 10 (rule_score (p_title p) reviews dog_breed age)"
proof -
  from assms have "min10 (Finite (rule_score (p_title p) reviews dog_breed age))
      = Finite (pr_suitability_score r)"
    unfolding rule_based_analysis_def by (blast dest: ProductRecommendation_init_score)
  then show ?thesis by (simp split: if_splits)
qed

lemma rule_based_analysis_returns:
  assumes "p_product_id p = Some i"
  shows "\<exists>r. rule_based_analysis p reviews dog_breed age = Inr r"
  using assms rule_score_ge_2 [of "p_title p" reviews dog_breed age]
  by (simp add: rule_based_analysis_def ProductRecommendation_init_def)

text \<open>
  C3. Whenever \<open>analyze_product_suitability\<close> returns by the rule-based path (no AI
  credential, or the AI attempt failed), the score of the recommendation lies in
  \<open>[2, 10]\<close>: a rule total below 2 is reported as 2, a rule total above 10 as 10.
\<close>

theorem rule_based_score_range:
  assumes "analyze_product_suitability self w p reviews dog_breed age api_key = Inr r"
    and "\<not> truthy (product_credential self w api_key)
         \<or> (\<exists>e. ai_attempt w p reviews dog_breed age = Inl e)"
  shows "2 \<le> pr_suitability_score r \<and> pr_suitability_score r \<le> 10
       \<and> (rule_total (p_title p) reviews dog_breed age < 2 \<longrightarrow> pr_suitability_score r = 2)
       \<and> (10 < rule_total (p_title p) reviews dog_breed age \<longrightarrow> pr_suitability_score r = 10)"
proof -
  from assms have "rule_based_analysis p reviews dog_breed age = Inr r"
    by (auto simp: analyze_product_suitability_def split: if_splits sum.splits)
  then have "pr_suitability_score r = min 10 (rule_score (p_title p) reviews dog_breed age)"
    by (rule rule_based_analysis_score)
  then show ?thesis
    by (simp add: rule_score_def)
qed

lemma chew_toy_total: "rule_total (p_title chew_toy) [] ''Beagle'' ''adult'' = 0" by code_simp
lemma bulldog_food_total: "rule_total (p_title bulldog_food) [bulldog_review] ''Bulldog'' ''puppy'' = 12" by code_simp

theorem rule_based_score_range_witness:
  "(\<exists>r. analyze_product_suitability no_agent_key offline_world chew_toy [] ''Beagle'' ''adult'' None = Inr r
        \<and> pr_suitability_score r = 2)
   \<and> (\<exists>r. analyze_product_suitability no_agent_key ai_down_world bulldog_food [bulldog_review]
            ''Bulldog'' ''puppy'' None = Inr r
        \<and> pr_suitability_score r = 10)"
proof -
  have c1: "\<not> truthy (product_credential no_agent_key offline_world None)"
    by (simp add: product_credential_def py_or_def no_agent_key_def offline_world_def)
  have c2: "\<exists>e. ai_attempt ai_down_world bulldog_food [bulldog_review] ''Bulldog'' ''puppy'' = Inl e"
    by (simp add: ai_attempt_def ai_down_world_def offline_world_def)
  have k2: "truthy (product_credential no_agent_key ai_down_world None)"
    by (simp add: product_credential_def py_or_def no_agent_key_def ai_down_world_def offline_world_def)
  have "p_product_id chew_toy = Some ''chew-toy''"
    by (simp add: chew_toy_def)
  from rule_based_analysis_returns [OF this]
  obtain r1 where r1: "rule_based_analysis chew_toy [] ''Beagle'' ''adult'' = Inr r1"
    by blast
  have "p_product_id bulldog_food = Some ''bulldog-puppy-food''"
    by (simp add: bulldog_food_def)
  from rule_based_analysis_returns [OF this]
  obtain r2 where r2: "rule_based_analysis bulldog_food [bulldog_review] ''Bulldog'' ''puppy'' = Inr r2"
    by blast
  have a1: "analyze_product_suitability no_agent_key offline_world chew_toy [] ''Beagle'' ''adult'' None = Inr r1"
    using c1 r1 by (simp add: analyze_product_suitability_def)
  have a2: "analyze_product_suitability no_agent_key ai_down_world bulldog_food [bulldog_review]
      ''Bulldog'' ''puppy'' None = Inr r2"
    using c2 k2 r2 by (auto simp: analyze_product_suitability_def)
  have "pr_suitability_score r1 = 2"
    using rule_based_score_range [OF a1] c1 chew_toy_total by simp
  moreover have "pr_suitability_score r2 = 10"
    using rule_based_score_range [OF a2] c2 bulldog_food_total by simp
  ultimately show ?thesis using a1 a2 by blast
qed


text \<open>
  C4. The product titled "Labrador Adult Formula" with no reviews, for breed "Labrador"
  and age "adult", without any AI credential: \<open>+3\<close> for the breed in the title, \<open>+2\<close> for
  the age in the title, nothing from reviews and nothing from nutrition keywords, and
  \<open>analyze_product_suitability\<close> returns a recommendation with score exactly 5.
\<close>

theorem labrador_adult_formula_scores_5:
  "breed_title_bonus ''Labrador Adult Formula'' ''Labrador'' = 3
   \<and> age_title_bonus ''Labrador Adult Formula'' ''adult'' = 2
   \<and> breed_review_bonus [] ''Labrador'' = 0
   \<and> age_review_bonus [] ''adult'' = 0
   \<and> nutrition_bonus [] ''Labrador'' = 0
   \<and> (\<exists>r. analyze_product_suitability \<lparr>openai_api_key = None\<rparr>
              (w\<lparr>environ_OPENAI_API_KEY := None\<rparr>)
              \<lparr>p_product_id = Some pid, p_title = ''Labrador Adult Formula'', p_url = u,
                p_price = pr, p_image_url = img\<rparr>
              [] ''Labrador'' ''adult'' None = Inr r
            \<and> pr_suitability_score r = 5)"
proof -
  have b: "breed_title_bonus ''Labrador Adult Formula'' ''Labrador'' = 3" by code_simp
  have a: "age_title_bonus ''Labrador Adult Formula'' ''adult'' = 2" by code_simp
  have br: "breed_review_bonus [] ''Labrador'' = 0" by code_simp
  have ar: "age_review_bonus [] ''adult'' = 0" by code_simp
  have n: "nutrition_bonus [] ''Labrador'' = 0" by code_simp
  have s: "rule_score ''Labrador Adult Formula'' [] ''Labrador'' ''adult'' = 5"
    by (simp add: rule_score_def rule_total_def b a br ar n)
  have "\<exists>r. analyze_product_suitability \<lparr>openai_api_key = None\<rparr>
              (w\<lparr>environ_OPENAI_API_KEY := None\<rparr>)
              \<lparr>p_product_id = Some pid, p_title = ''Labrador Adult Formula'', p_url = u,
                p_price = pr, p_image_url = img\<rparr>
              [] ''Labrador'' ''adult'' None = Inr r
            \<and> pr_suitability_score r = 5"
    by (simp add: analyze_product_suitability_def product_credential_def py_or_def
        rule_based_analysis_def ProductRecommendation_init_def s)
  with b a br ar n show ?thesis by blast
qed

subsection \<open>Properties of the groomer agent\<close>


lemma startswith_append: "startswith (p @ s) p"
  by (induction p) auto

lemma py_in_prefix: "py_in sub (sub @ ys)"
proof (cases "sub @ ys")
  case Nil
  then show ?thesis by simp
next
  case (Cons c cs)
  have "startswith (sub @ ys) sub" by (rule startswith_append)
  with Cons show ?thesis by simp
qed

lemma py_in_append: "py_in sub (xs @ sub @ ys)"
  by (induction xs) (auto simp: py_in_prefix)

lemma not_profile_empty: "\<not> is_profile_url []"
  by (simp add: is_profile_url_def profile_patterns_def)

lemma profile_id_url_shaped: "is_profile_url (''https://www.petbacker.ph/profile/'' @ i)"
proof -
  have "py_in ''/profile/'' (''https://www.petbacker.ph'' @ ''/profile/'' @ i)"
    by (rule py_in_append)
  then show ?thesis by (simp add: is_profile_url_def profile_patterns_def)
qed

lemma grooming_url_shaped:
  "is_profile_url (''https://www.petbacker.ph/philippines/grooming/'' @ rest)"
proof -
  have "py_in ''/philippines/grooming/'' (''https://www.petbacker.ph'' @ ''/philippines/grooming/'' @ rest)"
    by (rule py_in_append)
  then show ?thesis by (simp add: is_profile_url_def profile_patterns_def)
qed

lemma specialist_url_shaped:
  "is_profile_url (''https://www.petbacker.ph/pet-sitter/'' @ rest)"
proof -
  have "py_in ''/pet-sitter/'' (''https://www.petbacker.ph'' @ ''/pet-sitter/'' @ rest)"
    by (rule py_in_append)
  then show ?thesis by (simp add: is_profile_url_def profile_patterns_def)
qed

lemma GroomerRecommendation_init_fields:
  assumes "GroomerRecommendation_init gid name u loc services rating revs reason score img contact = Inr r"
  shows "gr_url r = u \<and> score = Finite (gr_suitability_score r)
         \<and> 0 \<le> gr_suitability_score r \<and> gr_suitability_score r \<le> 10"
  using assms
  by (auto simp: GroomerRecommendation_init_def split: pyfloat.splits if_splits)

lemma analyze_groomer_fields:
  assumes "analyze_groomer_suitability self w g dog_breed api_key = Inr r"
  shows "gr_url r = groomer_url g dog_breed
         \<and> fst (groomer_score_reason w g dog_breed api_key) = Finite (gr_suitability_score r)
         \<and> 0 \<le> gr_suitability_score r \<and> gr_suitability_score r \<le> 10"
  using assms unfolding analyze_groomer_suitability_def Let_def
  by (blast dest: GroomerRecommendation_init_fields)

lemma analyze_groomer_returns:
  assumes "fst (groomer_score_reason w g dog_breed api_key) = Finite s" and "0 \<le> s" and "s \<le> 10"
  shows "\<exists>r. analyze_groomer_suitability self w g dog_breed api_key = Inr r
             \<and> gr_suitability_score r = s \<and> gr_url r = groomer_url g dog_breed"
  using assms
  by (simp add: analyze_groomer_suitability_def GroomerRecommendation_init_def Let_def)

lemma indicator_fold_bounds:
  "a \<le> foldl (\<lambda>score indicator. if P indicator then score + 1 else score) (a::real) xs
   \<and> foldl (\<lambda>score indicator. if P indicator then score + 1 else score) a xs \<le> a + real (length xs)"
proof (induction xs arbitrary: a)
  case Nil
  show ?case by simp
next
  case (Cons x xs)
  from Cons [of "a + 1"] Cons [of a] show ?case by auto
qed

lemma groomer_rule_score_range:
  "0 \<le> groomer_rule_score ttl content dog_breed \<and> groomer_rule_score ttl content dog_breed \<le> 10"
proof -
  let ?P = "\<lambda>indicator. py_in indicator (py_lower content)"
  let ?a = "if breed_named ttl content dog_breed then 0 + 5 else (0::real)"
  have "?a \<le> foldl (\<lambda>score indicator. if ?P indicator then score + 1 else score) ?a experience_indicators"
    using indicator_fold_bounds [of ?a ?P experience_indicators] by blast
  moreover have "0 \<le> ?a" by simp
  ultimately show ?thesis
    unfolding groomer_rule_score_def by auto
qed

text \<open>
  C8. \<open>search_for_groomers\<close> never returns an empty list, for any breed, location and
  behaviour of the PetBacker scraper: when the scraper raises, or returns no groomer,
  the result is the mock record set, which holds one placeholder groomer.
\<close>

theorem search_for_groomers_nonempty:
  "search_for_groomers self w dog_breed location max_results \<noteq> []
   \<and> search_for_groomers self (w\<lparr>search_petbacker_groomers := (\<lambda>b l m. Inl e)\<rparr>)
        dog_breed location max_results = mock_groomers dog_breed
   \<and> search_for_groomers self (w\<lparr>search_petbacker_groomers := (\<lambda>b l m. Inr [])\<rparr>)
        dog_breed location max_results = mock_groomers dog_breed
   \<and> length (mock_groomers dog_breed) = 1"
  by (simp add: search_for_groomers_def mock_groomers_def split: sum.splits)

text \<open>
  C9. When the groomer dictionary carries a seed \<open>breed_compatibility = v\<close> with
  \<open>0 < v \<le> 10\<close>, \<open>analyze_groomer_suitability\<close> returns a recommendation whose score is
  exactly \<open>v\<close> (the presence of the seed alone selects this branch, so in particular
  when no credential is used). The breed and experience bonuses are what the score is
  made of only when, without a credential, the seed is missing or 0.
\<close>

theorem seed_is_score:
  "(gd_breed_compatibility g = Some v \<and> 0 < v \<and> v \<le> 10 \<longrightarrow>
      (\<exists>r. analyze_groomer_suitability self w g dog_breed api_key = Inr r
           \<and> gr_suitability_score r = v))
   \<and> (\<not> truthy (groomer_credential w api_key)
        \<and> (gd_breed_compatibility g = None \<or> gd_breed_compatibility g = Some 0) \<longrightarrow>
      (\<exists>r. analyze_groomer_suitability self w g dog_breed api_key = Inr r
           \<and> gr_suitability_score r =
               groomer_rule_score (get_or (gd_title g) ''Unknown Groomer'')
                 (get_or (gd_content g) []) dog_breed))"
proof (intro conjI impI)
  assume a: "gd_breed_compatibility g = Some v \<and> 0 < v \<and> v \<le> 10"
  then have "fst (groomer_score_reason w g dog_breed api_key) = Finite v"
    by (simp add: groomer_score_reason_def get_or_def Let_def)
  from analyze_groomer_returns [OF this] a
  show "\<exists>r. analyze_groomer_suitability self w g dog_breed api_key = Inr r
           \<and> gr_suitability_score r = v"
    by fastforce
next
  let ?s = "groomer_rule_score (get_or (gd_title g) ''Unknown Groomer'') (get_or (gd_content g) []) dog_breed"
  assume a: "\<not> truthy (groomer_credential w api_key)
        \<and> (gd_breed_compatibility g = None \<or> gd_breed_compatibility g = Some 0)"
  then have "fst (groomer_score_reason w g dog_breed api_key) = Finite ?s"
    by (auto simp: groomer_score_reason_def get_or_def Let_def)
  from analyze_groomer_returns [OF this] groomer_rule_score_range
  show "\<exists>r. analyze_groomer_suitability self w g dog_breed api_key = Inr r \<and> gr_suitability_score r = ?s"
    by blast
qed

lemma unseeded_rule_score:
  "groomer_rule_score ''Poodle Parlor'' ''Certified and professional.'' ''poodle'' = 7"
  by code_simp

lemma poodle_mock_rewritten: "groomer_url poodle_mock ''poodle'' =
  ''https://www.petbacker.ph/philippines/grooming/manila--metro-manila--philippines/professional-poodle-groomer''"
  by code_simp
lemma site_groomer_unchanged: "groomer_url site_groomer ''poodle'' = site_listing_url"
  by code_simp
lemma site_listing_not_profile: "\<not> is_profile_url site_listing_url"
  by code_simp
lemma poodle_mock_seed: "gd_breed_compatibility poodle_mock = Some 8"
  by (simp add: poodle_mock_def mock_groomers_def)


lemma offline_no_credential: "\<not> truthy (groomer_credential offline_world None)"
  by (simp add: groomer_credential_def py_or_def offline_world_def)

theorem seed_is_score_witness:
  "(\<exists>r. analyze_groomer_suitability no_tavily_key offline_world poodle_mock ''poodle'' None = Inr r
        \<and> gr_suitability_score r = 8)
   \<and> (\<exists>r. analyze_groomer_suitability no_tavily_key offline_world unseeded_groomer ''poodle'' None = Inr r
        \<and> gr_suitability_score r = 7)"
proof -
  have t: "get_or (gd_title unseeded_groomer) ''Unknown Groomer'' = ''Poodle Parlor''"
    and c: "get_or (gd_content unseeded_groomer) [] = ''Certified and professional.''"
    and n: "gd_breed_compatibility unseeded_groomer = None"
    by (simp_all add: unseeded_groomer_def get_or_def)
  show ?thesis
    using seed_is_score [where g = poodle_mock and v = 8 and self = no_tavily_key and w = offline_world
        and dog_breed = "''poodle''" and api_key = None]
      seed_is_score [where g = unseeded_groomer and self = no_tavily_key and w = offline_world
        and dog_breed = "''poodle''" and api_key = None]
      poodle_mock_seed offline_no_credential unseeded_rule_score t c n
    by simp
qed

text \<open>
  C7, as the code has it. In the recommendation that \<open>analyze_groomer_suitability\<close>
  returns, a URL that is already profile-shaped is unchanged. A listing-shaped URL is
  replaced by a profile-shaped one, different from the original, in three cases: the URL
  is empty (the result is the breed-specialist URL under \<open>/pet-sitter/\<close>), the
  dictionary has a non-empty \<open>id\<close> without \<open>groomer-\<close> in it (the result is
  \<open>/profile/<id>\<close>), or the URL contains \<open>petbacker.ph/s/\<close> (the result is
  \<open>/philippines/grooming/<location>/<name-slug>\<close>). The PetBacker listing URL for Manila
  with the name "Professional poodle Groomer" becomes
  \<open>.../philippines/grooming/manila--metro-manila--philippines/professional-poodle-groomer\<close>.
\<close>

theorem groomer_url_canonical:
  assumes "analyze_groomer_suitability self w g dog_breed api_key = Inr r"
  shows "(is_profile_url (get_or (gd_url g) []) \<longrightarrow> gr_url r = get_or (gd_url g) [])
       \<and> (\<not> is_profile_url (get_or (gd_url g) [])
           \<and> (get_or (gd_url g) [] = []
               \<or> (get_or (gd_id g) [] \<noteq> [] \<and> \<not> py_in ''groomer-'' (get_or (gd_id g) []))
               \<or> py_in ''petbacker.ph/s/'' (get_or (gd_url g) [])) \<longrightarrow>
          is_profile_url (gr_url r) \<and> gr_url r \<noteq> get_or (gd_url g) []
          \<and> gr_url r =
              (if get_or (gd_url g) [] = [] then
                 ''https://www.petbacker.ph/pet-sitter/'' @ slug (py_lower dog_breed)
                   @ ''-specialist/manila--metro-manila--philippines''
               else if get_or (gd_id g) [] \<noteq> [] \<and> \<not> py_in ''groomer-'' (get_or (gd_id g) []) then
                 ''https://www.petbacker.ph/profile/'' @ get_or (gd_id g) []
               else
                 ''https://www.petbacker.ph/philippines/grooming/''
                   @ get_or (search_location (get_or (gd_url g) [])) ''metro-manila--philippines''
                   @ ''/'' @ slug (py_lower (get_or (gd_title g) ''Unknown Groomer''))))"
proof -
  let ?u = "get_or (gd_url g) []"
  have url: "gr_url r = groomer_url g dog_breed"
    using assms by (simp add: analyze_groomer_fields)
  have keep: "is_profile_url ?u \<longrightarrow> gr_url r = ?u"
    using not_profile_empty by (auto simp: url groomer_url_def Let_def)
  have rewrite: "gr_url r \<noteq> ?u \<and> is_profile_url (gr_url r) \<and> gr_url r =
              (if ?u = [] then
                 ''https://www.petbacker.ph/pet-sitter/'' @ slug (py_lower dog_breed)
                   @ ''-specialist/manila--metro-manila--philippines''
               else if get_or (gd_id g) [] \<noteq> [] \<and> \<not> py_in ''groomer-'' (get_or (gd_id g) []) then
                 ''https://www.petbacker.ph/profile/'' @ get_or (gd_id g) []
               else
                 ''https://www.petbacker.ph/philippines/grooming/''
                   @ get_or (search_location ?u) ''metro-manila--philippines''
                   @ ''/'' @ slug (py_lower (get_or (gd_title g) ''Unknown Groomer'')))"
    if np: "\<not> is_profile_url ?u"
      and c: "?u = [] \<or> (get_or (gd_id g) [] \<noteq> [] \<and> \<not> py_in ''groomer-'' (get_or (gd_id g) []))
               \<or> py_in ''petbacker.ph/s/'' ?u"
  proof -
    have ng: "\<not> py_in ''/philippines/grooming/'' ?u"
      using np by (simp add: is_profile_url_def profile_patterns_def)
    have form: "gr_url r =
              (if ?u = [] then
                 ''https://www.petbacker.ph/pet-sitter/'' @ slug (py_lower dog_breed)
                   @ ''-specialist/manila--metro-manila--philippines''
               else if get_or (gd_id g) [] \<noteq> [] \<and> \<not> py_in ''groomer-'' (get_or (gd_id g) []) then
                 ''https://www.petbacker.ph/profile/'' @ get_or (gd_id g) []
               else
                 ''https://www.petbacker.ph/philippines/grooming/''
                   @ get_or (search_location ?u) ''metro-manila--philippines''
                   @ ''/'' @ slug (py_lower (get_or (gd_title g) ''Unknown Groomer'')))"
      using np c ng by (auto simp: url groomer_url_def Let_def)
    have shaped: "is_profile_url (gr_url r)"
      unfolding form
      using specialist_url_shaped profile_id_url_shaped grooming_url_shaped by simp
    from shaped np have "gr_url r \<noteq> ?u" by auto
    with shaped form show ?thesis by blast
  qed
  from keep rewrite show ?thesis by blast
qed

lemma profile_groomer_url: "get_or (gd_url profile_groomer) [] = ''https://www.petbacker.ph/profile/12345''"
  by (simp add: profile_groomer_def get_or_def)
lemma profile_groomer_shaped: "is_profile_url ''https://www.petbacker.ph/profile/12345''"
  by code_simp
lemma profile_groomer_seed: "gd_breed_compatibility profile_groomer = Some 8"
  by (simp add: profile_groomer_def poodle_mock_def mock_groomers_def)
lemma poodle_mock_listing: 
  "get_or (gd_url poodle_mock) [] = ''https://www.petbacker.ph/s/dog-grooming/manila--metro-manila--philippines''
   \<and> get_or (gd_id poodle_mock) [] = []
   \<and> get_or (gd_title poodle_mock) ''Unknown Groomer'' = ''Professional poodle Groomer''"
  by (simp add: poodle_mock_def mock_groomers_def get_or_def)
lemma petbacker_listing_facts:
  "\<not> is_profile_url ''https://www.petbacker.ph/s/dog-grooming/manila--metro-manila--philippines''
   \<and> py_in ''petbacker.ph/s/'' ''https://www.petbacker.ph/s/dog-grooming/manila--metro-manila--philippines''
   \<and> search_location ''https://www.petbacker.ph/s/dog-grooming/manila--metro-manila--philippines''
       = Some ''manila--metro-manila--philippines''
   \<and> slug (py_lower ''Professional poodle Groomer'') = ''professional-poodle-groomer''"
  by code_simp

theorem groomer_url_canonical_witness:
  "(\<exists>r. analyze_groomer_suitability no_tavily_key offline_world profile_groomer ''poodle'' None = Inr r
        \<and> gr_url r = ''https://www.petbacker.ph/profile/12345'')
   \<and> (\<exists>r. analyze_groomer_suitability no_tavily_key offline_world poodle_mock ''poodle'' None = Inr r
        \<and> is_profile_url (gr_url r)
        \<and> gr_url r = ''https://www.petbacker.ph/philippines/grooming/manila--metro-manila--philippines/professional-poodle-groomer'')"
proof -
  obtain r1 where r1: "analyze_groomer_suitability no_tavily_key offline_world profile_groomer ''poodle'' None = Inr r1"
    using analyze_groomer_returns [where w = offline_world and g = profile_groomer
        and dog_breed = "''poodle''" and api_key = None and s = 8 and self = no_tavily_key]
      profile_groomer_seed
    by (auto simp: groomer_score_reason_def get_or_def Let_def)
  obtain r2 where r2: "analyze_groomer_suitability no_tavily_key offline_world poodle_mock ''poodle'' None = Inr r2"
    using analyze_groomer_returns [where w = offline_world and g = poodle_mock
        and dog_breed = "''poodle''" and api_key = None and s = 8 and self = no_tavily_key]
      poodle_mock_seed
    by (auto simp: groomer_score_reason_def get_or_def Let_def)
  have "gr_url r1 = ''https://www.petbacker.ph/profile/12345''"
    using groomer_url_canonical [OF r1] profile_groomer_url profile_groomer_shaped by simp
  moreover have "is_profile_url (gr_url r2) \<and> gr_url r2 = ''https://www.petbacker.ph/philippines/grooming/manila--metro-manila--philippines/professional-poodle-groomer''"
  proof -
    have "gr_url r2 = ''https://www.petbacker.ph/philippines/grooming/manila--metro-manila--philippines/professional-poodle-groomer''"
      using groomer_url_canonical [OF r2] poodle_mock_listing petbacker_listing_facts
      by (simp add: get_or_def)
    moreover have "is_profile_url (gr_url r2)"
      using groomer_url_canonical [OF r2] poodle_mock_listing petbacker_listing_facts
      by metis
    ultimately show ?thesis by blast
  qed
  ultimately show ?thesis using r1 r2 by blast
qed

text \<open>
  C7 as stated fails: the listing URL
  \<open>https://site/s/dog-grooming/manila--metro-manila--philippines\<close> for breed "poodle"
  (no \<open>id\<close> in the dictionary) matches no profile pattern, and the recommendation returned
  carries this very URL.
\<close>

theorem listing_url_kept_counterexample:
  "\<not> is_profile_url site_listing_url
   \<and> map_sum id gr_url (analyze_groomer_suitability no_tavily_key offline_world site_groomer ''poodle'' None)
       = Inr site_listing_url"
proof -
  have "gd_breed_compatibility site_groomer = Some 8"
    by (simp add: site_groomer_def poodle_mock_def mock_groomers_def)
  then have "fst (groomer_score_reason offline_world site_groomer ''poodle'' None) = Finite 8"
    by (simp add: groomer_score_reason_def get_or_def Let_def)
  from analyze_groomer_returns [OF this, where self = no_tavily_key]
  obtain r where "analyze_groomer_suitability no_tavily_key offline_world site_groomer ''poodle'' None = Inr r"
    and "gr_url r = groomer_url site_groomer ''poodle''"
    by fastforce
  then show ?thesis
    using site_listing_not_profile site_groomer_unchanged by simp
qed

text \<open>
  C1. Every \<open>ProductRecommendation\<close> that \<open>analyze_product_suitability\<close> returns and
  every \<open>GroomerRecommendation\<close> that \<open>analyze_groomer_suitability\<close> returns has its
  \<open>suitability_score\<close> in \<open>[0, 10]\<close>, for every input, every behaviour of the language
  model and on either path.
\<close>

theorem suitability_score_in_range:
  "(analyze_product_suitability self w p reviews dog_breed age api_key = Inr r \<longrightarrow>
      0 \<le> pr_suitability_score r \<and> pr_suitability_score r \<le> 10)
   \<and> (analyze_groomer_suitability gself w g dog_breed gkey = Inr gr \<longrightarrow>
      0 \<le> gr_suitability_score gr \<and> gr_suitability_score gr \<le> 10)"
proof (rule conjI; rule impI)
  assume "analyze_product_suitability self w p reviews dog_breed age api_key = Inr r"
  then consider "ai_attempt w p reviews dog_breed age = Inr r"
    | "rule_based_analysis p reviews dog_breed age = Inr r"
    by (auto simp: analyze_product_suitability_def split: if_splits sum.splits)
  then show "0 \<le> pr_suitability_score r \<and> pr_suitability_score r \<le> 10"
  proof cases
    case 1
    then show ?thesis
      by (auto simp: ai_attempt_def split: sum.splits dest: ProductRecommendation_init_score)
  next
    case 2
    then show ?thesis
      unfolding rule_based_analysis_def by (blast dest: ProductRecommendation_init_score)
  qed
next
  assume "analyze_groomer_suitability gself w g dog_breed gkey = Inr gr"
  then show "0 \<le> gr_suitability_score gr \<and> gr_suitability_score gr \<le> 10"
    by (simp add: analyze_groomer_fields)
qed

theorem suitability_score_in_range_witness:
  "(\<exists>r. analyze_product_suitability no_agent_key generous_ai_world chew_toy [] ''Beagle'' ''adult'' None = Inr r
        \<and> 0 \<le> pr_suitability_score r \<and> pr_suitability_score r \<le> 10)
   \<and> (\<exists>r. analyze_groomer_suitability no_tavily_key offline_world poodle_mock ''poodle'' None = Inr r
        \<and> 0 \<le> gr_suitability_score r \<and> gr_suitability_score r \<le> 10)"
proof -
  have "\<exists>r. analyze_product_suitability no_agent_key generous_ai_world chew_toy [] ''Beagle'' ''adult'' None = Inr r"
    by (simp add: analyze_product_suitability_def product_credential_def py_or_def no_agent_key_def
        generous_ai_world_def offline_world_def ai_attempt_def ProductRecommendation_init_def chew_toy_def)
  then obtain r1 where r1: "analyze_product_suitability no_agent_key generous_ai_world chew_toy [] ''Beagle'' ''adult'' None = Inr r1"
    by blast
  obtain r2 where r2: "analyze_groomer_suitability no_tavily_key offline_world poodle_mock ''poodle'' None = Inr r2"
    using analyze_groomer_returns [where w = offline_world and g = poodle_mock
        and dog_breed = "''poodle''" and api_key = None and s = 8 and self = no_tavily_key]
      poodle_mock_seed
    by (auto simp: groomer_score_reason_def get_or_def Let_def)
  show ?thesis
    using suitability_score_in_range [where self = no_agent_key and w = generous_ai_world
        and p = chew_toy and reviews = "[]" and dog_breed = "''Beagle''" and age = "''adult''"
        and api_key = None and r = r1] r1
      suitability_score_in_range [where gself = no_tavily_key and w = offline_world
        and g = poodle_mock and dog_breed = "''poodle''" and gkey = None and gr = r2] r2
    by simp
qed

subsection \<open>Properties of the composer\<close>


lemma sorted_by_score_desc_sorted:
  "sorted_wrt (\<lambda>a b. b \<le> a) (map score (sorted_by_score_desc score xs))"
proof -
  have "sorted (map (\<lambda>x. - score x) (sort_key (\<lambda>x. - score x) xs))"
    by (rule sorted_sort_key)
  then show ?thesis
    by (simp add: sorted_by_score_desc_def sorted_wrt_map)
qed

lemma sorted_by_score_desc_stable:
  "filter (\<lambda>x. score x = s) (sorted_by_score_desc score xs) = filter (\<lambda>x. score x = s) xs"
proof -
  have "filter (\<lambda>y. - score y = - s) (sort_key (\<lambda>x. - score x) xs)
      = filter (\<lambda>y. - score y = - s) xs"
    by (rule sort_key_stable)
  then show ?thesis
    by (simp add: sorted_by_score_desc_def)
qed

lemma sorted_by_score_desc_set:
  "set (sorted_by_score_desc score xs) = set xs \<and> length (sorted_by_score_desc score xs) = length xs"
  by (simp add: sorted_by_score_desc_def)

text \<open>
  C2. In the response of \<open>get_product_recommendations\<close>, \<open>recommendations\<close> is in
  descending order of \<open>suitability_score\<close> and, for every score \<open>s\<close>, the items with score
  \<open>s\<close> stand in the order in which the product loop produced them. The same holds for
  \<open>groomer_recommendations\<close> whenever it is present, that is, whenever groomers were asked
  for (the list is then the sorted list of analysed groomers, or the single fall-back
  groomer).
\<close>

theorem recommendations_sorted_stable:
  "sorted_wrt (\<lambda>a b. b \<le> a)
     (map pr_suitability_score
        (rs_recommendations
           (get_product_recommendations w products query dog_breed age tavily_key openai_key
              max_products include_groomers)))
   \<and> filter (\<lambda>x. pr_suitability_score x = s)
        (rs_recommendations
           (get_product_recommendations w products query dog_breed age tavily_key openai_key
              max_products include_groomers))
     = filter (\<lambda>x. pr_suitability_score x = s)
         (analysed_products w products dog_breed age openai_key max_products)
   \<and> (case rs_groomer_recommendations
              (get_product_recommendations w products query dog_breed age tavily_key openai_key
                 max_products include_groomers) of
         None \<Rightarrow> \<not> include_groomers
       | Some groomers \<Rightarrow>
           sorted_wrt (\<lambda>a b. b \<le> a) (map gr_suitability_score groomers)
           \<and> filter (\<lambda>x. gr_suitability_score x = t) groomers
             = filter (\<lambda>x. gr_suitability_score x = t)
                 (if analysed_groomers w dog_breed tavily_key openai_key = []
                  then [fallback_groomer dog_breed]
                  else analysed_groomers w dog_breed tavily_key openai_key))"
proof -
  let ?R = "get_product_recommendations w products query dog_breed age tavily_key openai_key
              max_products include_groomers"
  have recs: "rs_recommendations ?R = sorted_by_score_desc pr_suitability_score
      (analysed_products w products dog_breed age openai_key max_products)"
    by (simp add: get_product_recommendations_def Let_def)
  have p1: "sorted_wrt (\<lambda>a b. b \<le> a) (map pr_suitability_score (rs_recommendations ?R))"
    unfolding recs by (rule sorted_by_score_desc_sorted)
  have p2: "filter (\<lambda>x. pr_suitability_score x = s) (rs_recommendations ?R)
      = filter (\<lambda>x. pr_suitability_score x = s)
          (analysed_products w products dog_breed age openai_key max_products)"
    unfolding recs by (rule sorted_by_score_desc_stable)
  have g: "rs_groomer_recommendations ?R =
      (if include_groomers then Some (fst (groomer_block w dog_breed tavily_key openai_key)) else None)"
    by (simp add: get_product_recommendations_def Let_def)
  let ?G = "fst (groomer_block w dog_breed tavily_key openai_key)"
  let ?A = "analysed_groomers w dog_breed tavily_key openai_key"
  have gb: "?G = (if ?A = [] then [fallback_groomer dog_breed]
                  else sorted_by_score_desc gr_suitability_score ?A)"
  proof (cases "search_for_groomers \<lparr>tavily_api_key = tavily_key\<rparr> w dog_breed ''Philippines'' 3 = []")
    case True
    then have "?A = []" by (simp add: analysed_groomers_def)
    with True show ?thesis by (simp add: groomer_block_def)
  next
    case False
    then show ?thesis by (simp add: groomer_block_def)
  qed
  have g1: "sorted_wrt (\<lambda>a b. b \<le> a) (map gr_suitability_score ?G)"
    unfolding gb by (simp add: sorted_by_score_desc_sorted)
  have g2: "filter (\<lambda>x. gr_suitability_score x = t) ?G
      = filter (\<lambda>x. gr_suitability_score x = t) (if ?A = [] then [fallback_groomer dog_breed] else ?A)"
    unfolding gb by (simp add: sorted_by_score_desc_stable)
  from p1 p2 g g1 g2 show ?thesis
    by simp
qed

lemma ties_keep_input_order:
  "sorted_by_score_desc pr_suitability_score [rec_with ''a'' 5, rec_with ''b'' 7, rec_with ''c'' 5]
     = [rec_with ''b'' 7, rec_with ''a'' 5, rec_with ''c'' 5]"
  by (simp add: sorted_by_score_desc_def rec_with_def)

subsection \<open>Properties of the markup extractor\<close>


lemma append_card_acc: "append_card lib acc c = acc @ append_card lib [] c"
  by (simp add: append_card_def split: sum.splits option.splits)

lemma foldl_append_card: "foldl (append_card lib) acc cs = acc @ foldl (append_card lib) [] cs"
proof (induction cs arbitrary: acc)
  case Nil
  show ?case by simp
next
  case (Cons c cs)
  have "foldl (append_card lib) (c_acc) cs = c_acc @ foldl (append_card lib) [] cs" for c_acc
    by (rule Cons.IH)
  from this [of "append_card lib acc c"] this [of "append_card lib [] c"]
  show ?case
    using append_card_acc [of lib acc c] by simp
qed

lemma extract_cards_append:
  "extract_cards lib (xs @ ys) = extract_cards lib xs @ extract_cards lib ys"
  unfolding extract_cards_def foldl_append
  by (rule foldl_append_card)

lemma extract_cards_single: "extract_cards lib [c] = append_card lib [] c"
  by (simp add: extract_cards_def)

lemma extract_cards_split:
  "extract_cards lib (xs @ c # ys) = extract_cards lib xs @ append_card lib [] c @ extract_cards lib ys"
proof -
  have "xs @ c # ys = xs @ [c] @ ys" by simp
  then show ?thesis
    by (simp only: extract_cards_append extract_cards_single)
qed

lemma extract_cards_length: "length (extract_cards lib cs) \<le> length cs"
proof (induction cs rule: rev_induct)
  case Nil
  show ?case by (simp add: extract_cards_def)
next
  case (snoc c cs)
  have "length (append_card lib [] c) \<le> 1"
    by (simp add: append_card_def split: sum.splits option.splits)
  with snoc show ?case
    by (simp add: extract_cards_append extract_cards_single)
qed

lemma linkless_skipped: "link_href c = None \<Longrightarrow> process_card lib c = Inr None"
  by (simp add: process_card_def)

text \<open>
  C6, as the code has it. An exception of the html5lib parse or of the card selection,
  which run before the \<open>try\<close>, reaches the caller of \<open>extract_product_data\<close>. Whenever the
  parse returns, \<open>extract_product_data\<close> returns a list, never longer than the list of
  cards: every exception raised while one card is processed is caught in the loop. A
  card without its link element, and a card whose processing raises, contribute nothing,
  and the cards before and after them are extracted as if they were not there; a card
  that is processed contributes its record at its place.
\<close>

theorem extract_product_data_total_when_parsed:
  "(product_cards lib html_content = Inl e \<longrightarrow> extract_product_data lib html_content = Inl e)
   \<and> (product_cards lib html_content = Inr cards \<longrightarrow>
        extract_product_data lib html_content = Inr (extract_cards lib cards)
        \<and> length (extract_cards lib cards) \<le> length cards)
   \<and> (product_cards lib html_content = Inr (before @ c # after) \<longrightarrow>
        (link_href c = None \<or> (\<exists>e. process_card lib c = Inl e) \<longrightarrow>
           extract_product_data lib html_content
             = Inr (extract_cards lib before @ extract_cards lib after))
        \<and> (process_card lib c = Inr (Some p) \<longrightarrow>
           extract_product_data lib html_content
             = Inr (extract_cards lib before @ p # extract_cards lib after)))"
proof -
  have raised: "product_cards lib html_content = Inl e \<longrightarrow> extract_product_data lib html_content = Inl e"
    by (simp add: extract_product_data_def)
  have parsed: "product_cards lib html_content = Inr cards \<longrightarrow>
        extract_product_data lib html_content = Inr (extract_cards lib cards)
        \<and> length (extract_cards lib cards) \<le> length cards"
    by (simp add: extract_product_data_def extract_cards_length)
  have cards: "product_cards lib html_content = Inr (before @ c # after) \<longrightarrow>
        (link_href c = None \<or> (\<exists>e. process_card lib c = Inl e) \<longrightarrow>
           extract_product_data lib html_content
             = Inr (extract_cards lib before @ extract_cards lib after))
        \<and> (process_card lib c = Inr (Some p) \<longrightarrow>
           extract_product_data lib html_content
             = Inr (extract_cards lib before @ p # extract_cards lib after))"
  proof (rule impI)
    assume found: "product_cards lib html_content = Inr (before @ c # after)"
    have split: "extract_product_data lib html_content
        = Inr (extract_cards lib before @ append_card lib [] c @ extract_cards lib after)"
      by (simp only: extract_product_data_def found extract_cards_split sum.case)
    have skip: "append_card lib [] c = []"
      if "link_href c = None \<or> (\<exists>e. process_card lib c = Inl e)"
      using that linkless_skipped [of c lib] by (auto simp: append_card_def)
    have keep: "append_card lib [] c = [p]" if "process_card lib c = Inr (Some p)"
      using that by (simp add: append_card_def)
    from split skip keep
    show "(link_href c = None \<or> (\<exists>e. process_card lib c = Inl e) \<longrightarrow>
           extract_product_data lib html_content
             = Inr (extract_cards lib before @ extract_cards lib after))
        \<and> (process_card lib c = Inr (Some p) \<longrightarrow>
           extract_product_data lib html_content
             = Inr (extract_cards lib before @ p # extract_cards lib after))"
      by simp
  qed
  from raised parsed cards show ?thesis by blast
qed

lemma demo_cards:
  "product_cards demo_library ''<html>'' = Inr [good_card, linkless_card, failing_card, other_card]"
  by (simp add: demo_library_def)

lemma demo_parse_raises:
  "product_cards demo_library ''<table><svg><html>'' = Inl (ExternalError ''AssertionError'')"
  by (simp add: demo_library_def)

lemma demo_linkless: "link_href linkless_card = None"
  by (simp add: linkless_card_def)

lemma demo_failing: "process_card demo_library failing_card = Inl (ExternalError ''ValueError'')"
  by code_simp

lemma demo_good: "process_card demo_library good_card = Inr (Some kibble)"
  by code_simp

theorem extract_product_data_total_when_parsed_witness:
  "extract_product_data demo_library ''<table><svg><html>'' = Inl (ExternalError ''AssertionError'')
   \<and> extract_product_data demo_library ''<html>''
     = Inr (extract_cards demo_library [good_card, linkless_card, failing_card, other_card])
   \<and> extract_product_data demo_library ''<html>''
     = Inr (extract_cards demo_library [good_card]
            @ extract_cards demo_library [failing_card, other_card])
   \<and> extract_product_data demo_library ''<html>''
     = Inr (extract_cards demo_library [good_card, linkless_card]
            @ extract_cards demo_library [other_card])
   \<and> extract_product_data demo_library ''<html>''
     = Inr (extract_cards demo_library []
            @ kibble # extract_cards demo_library [linkless_card, failing_card, other_card])"
proof -
  let ?all = "[good_card, linkless_card, failing_card, other_card]"
  have a: "extract_product_data demo_library ''<table><svg><html>'' = Inl (ExternalError ''AssertionError'')"
    using extract_product_data_total_when_parsed [where lib = demo_library
        and html_content = "''<table><svg><html>''" and e = "ExternalError ''AssertionError''"]
      demo_parse_raises
    by blast
  have b: "extract_product_data demo_library ''<html>'' = Inr (extract_cards demo_library ?all)"
    using extract_product_data_total_when_parsed [where lib = demo_library
        and html_content = "''<html>''" and cards = ?all]
      demo_cards
    by blast
  have c1: "product_cards demo_library ''<html>'' = Inr ([good_card] @ linkless_card # [failing_card, other_card])"
    and c2: "product_cards demo_library ''<html>'' = Inr ([good_card, linkless_card] @ failing_card # [other_card])"
    and c3: "product_cards demo_library ''<html>'' = Inr ([] @ good_card # [linkless_card, failing_card, other_card])"
    using demo_cards by simp_all
  have c: "extract_product_data demo_library ''<html>''
      = Inr (extract_cards demo_library [good_card] @ extract_cards demo_library [failing_card, other_card])"
    using extract_product_data_total_when_parsed [where lib = demo_library
        and html_content = "''<html>''" and before = "[good_card]" and c = linkless_card
        and after = "[failing_card, other_card]"]
      c1 demo_linkless
    by blast
  have d: "extract_product_data demo_library ''<html>''
      = Inr (extract_cards demo_library [good_card, linkless_card] @ extract_cards demo_library [other_card])"
    using extract_product_data_total_when_parsed [where lib = demo_library
        and html_content = "''<html>''" and before = "[good_card, linkless_card]" and c = failing_card
        and after = "[other_card]"]
      c2 demo_failing
    by blast
  have e: "extract_product_data demo_library ''<html>''
      = Inr (extract_cards demo_library []
             @ kibble # extract_cards demo_library [linkless_card, failing_card, other_card])"
    using extract_product_data_total_when_parsed [where lib = demo_library
        and html_content = "''<html>''" and before = "[]" and c = good_card
        and after = "[linkless_card, failing_card, other_card]" and p = kibble]
      c3 demo_good
    by blast
  from a b c d e show ?thesis by blast
qed

text \<open>
  C6 as stated fails: on the input \<open><table><svg><html>\<close> the parser raises before the loop
  is entered, and \<open>extract_product_data\<close> raises that exception instead of returning a list.
\<close>

theorem extract_product_data_raises_counterexample:
  "extract_product_data demo_library ''<table><svg><html>'' = Inl (ExternalError ''AssertionError'')"
  by (simp add: extract_product_data_def demo_library_def)

lemma demo_page_yields_two:
  "map_sum id length (extract_product_data demo_library ''<html>'') = Inr 2"
  by code_simp
end
